theory Spec2Isabelle
  imports Complex_Main
begin

section \<open>Data model of the session subsystem (server/index.js)\<close>

text \<open>
  The object \<^verbatim>\<open>{ id, email, name, role }\<close> that the login and register handlers hand to
  \<^verbatim>\<open>generateToken\<close> and send back to the client.
\<close>

record user =
  user_id :: string
  user_email :: string
  user_name :: string
  user_role :: string

text \<open>A row of the \<^verbatim>\<open>users\<close> table (the columns the session code reads).\<close>

record user_row =
  row_id :: string
  row_email :: string
  password_hash :: string
  row_name :: string
  row_role :: string

text \<open>
  The claims of a session token: the payload built in \<^verbatim>\<open>generateToken\<close> together with
  the registered claims that \<^verbatim>\<open>jwt.sign\<close> adds (\<^verbatim>\<open>iat\<close>, \<^verbatim>\<open>exp\<close>, \<^verbatim>\<open>jti\<close>, in seconds).
  \<^verbatim>\<open>sessionVersion\<close> is optional because \<^verbatim>\<open>jwt.verify\<close> accepts any payload signed with the
  secret, also one without that field.
\<close>

record claims =
  claim_id :: string
  claim_email :: string
  claim_name :: string
  claim_role :: string
  sessionVersion :: "int option"
  iat :: int
  exp_at :: int
  jti :: string

text \<open>
  A bearer token is a non-empty string. The jsonwebtoken library is an external
  collaborator; a token string is modelled by what the library reads from it: either it
  does not parse as a JWT (\<open>Malformed\<close>, carrying the string), or it is a JWT carrying a
  signature made with some key, and its claims (\<open>Signed key claims\<close>).
\<close>

datatype token = Malformed string | Signed string claims

datatype jwt_error = JsonWebTokenError | TokenExpiredError

text \<open>
  \<^verbatim>\<open>jwt.verify(token, secret)\<close> at clock \<open>now\<close> (milliseconds, \<^verbatim>\<open>Date.now()\<close>): structure and
  signature first, then expiry, which the library tests as
  \<^verbatim>\<open>Math.floor(Date.now() / 1000) >= exp\<close>.
\<close>

definition jwt_verify :: "token \<Rightarrow> string \<Rightarrow> int \<Rightarrow> jwt_error + claims" where
  "jwt_verify t secret now =
     (case t of
        Malformed _ \<Rightarrow> Inl JsonWebTokenError
      | Signed key decoded \<Rightarrow>
          if key \<noteq> secret then Inl JsonWebTokenError
          else if now div 1000 \<ge> exp_at decoded then Inl TokenExpiredError
          else Inr decoded)"

record attemptData =
  count :: int
  resetTime :: int

text \<open>
  The process-wide state: the three module-level maps and the \<^verbatim>\<open>users\<close> table. A
  \<^verbatim>\<open>Set\<close> of tokens is a list in insertion order (oldest first).
\<close>

record server =
  activeSessions :: "string \<Rightarrow> token list option"
  sessionTokenVersions :: "string \<Rightarrow> int option"
  loginAttempts :: "string \<Rightarrow> attemptData option"
  users :: "user_row list"

record config =
  JWT_SECRET :: string
  MAX_CONCURRENT_SESSIONS :: int

text \<open>
  Response bodies. \<open>TooManyAttempts n\<close> is the body
  \<^verbatim>\<open>{ message: `Too many login attempts. Please try again in ${n} minutes.`, retryAfter: n }\<close>;
  \<open>SessionBody m u t\<close> is \<^verbatim>\<open>{ message: m, user: u, token: t }\<close>.
\<close>

datatype body =
    Message string
  | TooManyAttempts int
  | SessionBody string user token
  | UserBody user
  | UsersBody "user list"

record response =
  status :: nat
  body :: body

section \<open>Set operations of the registry\<close>

text \<open>\<^verbatim>\<open>Set.prototype.add\<close>: appends unless present; \<^verbatim>\<open>Set.prototype.delete\<close>.\<close>

definition set_add :: "'a \<Rightarrow> 'a list \<Rightarrow> 'a list" where
  "set_add x xs = (if x \<in> set xs then xs else xs @ [x])"

definition set_delete :: "'a \<Rightarrow> 'a list \<Rightarrow> 'a list" where
  "set_delete x xs = filter (\<lambda>y. y \<noteq> x) xs"

section \<open>Token codec and request validation\<close>

text \<open>
  \<^verbatim>\<open>generateToken(user)\<close>; \<open>now\<close> is \<^verbatim>\<open>Date.now()\<close> and \<open>uuid\<close> the value of \<^verbatim>\<open>uuidv4()\<close>.
  \<^verbatim>\<open>sessionTokenVersions.get(user.id) || 1\<close> is 1 for an absent and for a zero entry.
\<close>

definition generateToken :: "config \<Rightarrow> server \<Rightarrow> int \<Rightarrow> string \<Rightarrow> user \<Rightarrow> token" where
  "generateToken cfg s now uuid u =
     Signed (JWT_SECRET cfg)
       \<lparr> claim_id = user_id u, claim_email = user_email u, claim_name = user_name u,
         claim_role = user_role u,
         sessionVersion =
           Some (case sessionTokenVersions s (user_id u) of
                   None \<Rightarrow> 1
                 | Some v \<Rightarrow> if v = 0 then 1 else v),
         iat = now div 1000, exp_at = now div 1000 + 24 * 60 * 60, jti = uuid \<rparr>"

text \<open>
  The argument \<open>bearer\<close> of both middlewares is the value of
  \<^verbatim>\<open>authHeader && authHeader.split(' ')[1]\<close>: \<open>None\<close> when the header is absent or has no
  second part. \<^verbatim>\<open>!token\<close> also holds for the empty string, which is \<open>Malformed []\<close>.

  \<^verbatim>\<open>validateSession\<close>: \<open>Inl\<close> is the response sent, \<open>Inr decoded\<close> is \<^verbatim>\<open>next()\<close> with
  \<^verbatim>\<open>req.user = decoded\<close>. The registry look-up only logs, so it is no branch here.
\<close>

definition validateSession :: "config \<Rightarrow> server \<Rightarrow> int \<Rightarrow> token option \<Rightarrow> response + claims" where
  "validateSession cfg s now bearer =
     (case bearer of
        None \<Rightarrow> Inl \<lparr> status = 401, body = Message ''Authentication required'' \<rparr>
      | Some t \<Rightarrow>
          if t = Malformed [] then Inl \<lparr> status = 401, body = Message ''Authentication required'' \<rparr>
          else
            (case jwt_verify t (JWT_SECRET cfg) now of
               Inr decoded \<Rightarrow>
                 (case sessionTokenVersions s (claim_id decoded) of
                    None \<Rightarrow> Inr decoded
                  | Some currentVersion \<Rightarrow>
                      if currentVersion \<noteq> 0 \<and> sessionVersion decoded \<noteq> Some currentVersion
                      then Inl \<lparr> status = 403,
                                 body = Message ''Session invalidated. Please log in again.'' \<rparr>
                      else Inr decoded)
             | Inl TokenExpiredError \<Rightarrow>
                 Inl \<lparr> status = 401, body = Message ''Session expired. Please log in again.'' \<rparr>
             | Inl JsonWebTokenError \<Rightarrow>
                 Inl \<lparr> status = 403, body = Message ''Invalid or expired token'' \<rparr>))"

text \<open>\<^verbatim>\<open>authenticateToken\<close>, the middleware every protected route is registered with.\<close>

definition authenticateToken :: "config \<Rightarrow> int \<Rightarrow> token option \<Rightarrow> response + claims" where
  "authenticateToken cfg now bearer =
     (case bearer of
        None \<Rightarrow> Inl \<lparr> status = 401, body = Message ''Authentication required'' \<rparr>
      | Some t \<Rightarrow>
          if t = Malformed [] then Inl \<lparr> status = 401, body = Message ''Authentication required'' \<rparr>
          else
            (case jwt_verify t (JWT_SECRET cfg) now of
               Inl err \<Rightarrow> Inl \<lparr> status = 403, body = Message ''Invalid or expired token'' \<rparr>
             | Inr decoded \<Rightarrow> Inr decoded))"

section \<open>Login, logout and registration handlers\<close>

definition windowMs :: int where
  "windowMs = 15 * 60 * 1000"

definition maxAttempts :: int where
  "maxAttempts = 5"

text \<open>\<^verbatim>\<open>queryOne('SELECT ... FROM users WHERE email = ?')\<close> and \<^verbatim>\<open>... WHERE id = ?\<close>.\<close>

definition queryOne_email :: "user_row list \<Rightarrow> string \<Rightarrow> user_row option" where
  "queryOne_email rows e = find (\<lambda>r. row_email r = e) rows"

definition queryOne_id :: "user_row list \<Rightarrow> string \<Rightarrow> user_row option" where
  "queryOne_id rows i = find (\<lambda>r. row_id r = i) rows"

definition row_user :: "user_row \<Rightarrow> user" where
  "row_user r =
     \<lparr> user_id = row_id r, user_email = row_email r, user_name = row_name r,
       user_role = row_role r \<rparr>"

text \<open>
  The registry part of the login handler (\<^verbatim>\<open>// Track the session\<close> and
  \<^verbatim>\<open>// Enforce concurrent session limit\<close>): the set after \<^verbatim>\<open>add\<close>, and after the
  eviction of \<^verbatim>\<open>userSessions.values().next().value\<close>.
\<close>

definition track_session :: "int \<Rightarrow> token \<Rightarrow> token list option \<Rightarrow> token list" where
  "track_session maxSessions t entry =
     (let userSessions = set_add t (case entry of None \<Rightarrow> [] | Some ts \<Rightarrow> ts)
      in if int (length userSessions) > maxSessions
         then (case userSessions of [] \<Rightarrow> [] | oldest # _ \<Rightarrow> set_delete oldest userSessions)
         else userSessions)"

text \<open>
  \<^verbatim>\<open>Math.ceil((attemptData.resetTime - now) / 1000 / 60)\<close>. Both divisions are exact or
  far from an integer for integer milliseconds, so the floating-point value has the
  ceiling of the real quotient.
\<close>

definition remainingTime_minutes :: "int \<Rightarrow> int \<Rightarrow> int" where
  "remainingTime_minutes reset now = \<lceil>real_of_int (reset - now) / 1000 / 60\<rceil>"

text \<open>
  The first steps of the login handler (\<^verbatim>\<open>// Rate limiting check\<close> and
  \<^verbatim>\<open>// Reset if window has passed\<close>): the value of \<^verbatim>\<open>attemptData\<close> for \<open>email\<close> at clock \<open>now\<close>.
\<close>

definition attempt_window :: "server \<Rightarrow> string \<Rightarrow> int \<Rightarrow> attemptData" where
  "attempt_window s email now =
     (let attempt = (case loginAttempts s email of
                       None \<Rightarrow> \<lparr> count = 0, resetTime = now + windowMs \<rparr>
                     | Some a \<Rightarrow> a)
      in if now > resetTime attempt then \<lparr> count = 0, resetTime = now + windowMs \<rparr>
         else attempt)"

text \<open>
  \<^verbatim>\<open>app.post('/api/auth/login')\<close>. \<open>compare\<close> is \<^verbatim>\<open>bcrypt.compare\<close>, \<open>now\<close> the clock of the
  request, \<open>uuid\<close> the \<^verbatim>\<open>jwtid\<close>; a missing body field is the empty string. The entry of
  \<^verbatim>\<open>loginAttempts\<close> is one shared object, so the window reset is stored on every path.
\<close>

definition login ::
  "config \<Rightarrow> (string \<Rightarrow> string \<Rightarrow> bool) \<Rightarrow> server \<Rightarrow> int \<Rightarrow> string \<Rightarrow> string \<Rightarrow> string
     \<Rightarrow> response \<times> server" where
  "login cfg compare s now uuid email password =
     (let attempt = attempt_window s email now;
          s1 = s\<lparr> loginAttempts := (loginAttempts s)(email \<mapsto> attempt) \<rparr>;
          failed = s\<lparr> loginAttempts :=
                        (loginAttempts s)(email \<mapsto> attempt\<lparr> count := count attempt + 1 \<rparr>) \<rparr>;
          invalid = \<lparr> status = 401, body = Message ''Invalid email or password'' \<rparr>
      in if count attempt \<ge> maxAttempts
         then (\<lparr> status = 429,
                 body = TooManyAttempts (remainingTime_minutes (resetTime attempt) now) \<rparr>, s1)
         else if email = [] \<or> password = []
         then (\<lparr> status = 400, body = Message ''Email and password are required'' \<rparr>, s1)
         else
           (case queryOne_email (users s) email of
              None \<Rightarrow> (invalid, failed)
            | Some row \<Rightarrow>
                if \<not> compare password (password_hash row) then (invalid, failed)
                else
                  (let s2 = s\<lparr> loginAttempts :=
                                 (loginAttempts s)(email \<mapsto> attempt\<lparr> count := 0 \<rparr>) \<rparr>;
                       t = generateToken cfg s2 now uuid (row_user row)
                   in (\<lparr> status = 200,
                         body = SessionBody ''Login successful'' (row_user row) t \<rparr>,
                       s2\<lparr> activeSessions :=
                             (activeSessions s2)(row_id row \<mapsto>
                                track_session (MAX_CONCURRENT_SESSIONS cfg) t
                                  (activeSessions s2 (row_id row))) \<rparr>))))"

text \<open>\<^verbatim>\<open>app.post('/api/auth/logout', authenticateToken, ...)\<close>.\<close>

definition logout :: "config \<Rightarrow> server \<Rightarrow> int \<Rightarrow> token option \<Rightarrow> response \<times> server" where
  "logout cfg s now bearer =
     (case authenticateToken cfg now bearer of
        Inl r \<Rightarrow> (r, s)
      | Inr u \<Rightarrow>
          (\<lparr> status = 200, body = Message ''Logged out successfully'' \<rparr>,
           (case bearer of
              None \<Rightarrow> s
            | Some t \<Rightarrow>
                (case activeSessions s (claim_id u) of
                   None \<Rightarrow> s
                 | Some ts \<Rightarrow>
                     s\<lparr> activeSessions := (activeSessions s)(claim_id u \<mapsto> set_delete t ts) \<rparr>))))"

text \<open>\<^verbatim>\<open>app.get('/api/auth/me', authenticateToken, ...)\<close>; it changes no state.\<close>

definition auth_me :: "config \<Rightarrow> server \<Rightarrow> int \<Rightarrow> token option \<Rightarrow> response" where
  "auth_me cfg s now bearer =
     (case authenticateToken cfg now bearer of
        Inl r \<Rightarrow> r
      | Inr u \<Rightarrow>
          (case queryOne_id (users s) (claim_id u) of
             None \<Rightarrow> \<lparr> status = 404, body = Message ''User not found'' \<rparr>
           | Some row \<Rightarrow> \<lparr> status = 200, body = UserBody (row_user row) \<rparr>))"

text \<open>
  The test of \<^verbatim>\<open>/^[^\s@]+@[^\s@]+\.[^\s@]+$/\<close>: one \<^verbatim>\<open>@\<close>, no white space, a non-empty local
  part, and a dot strictly inside the part after the \<^verbatim>\<open>@\<close>. White space is the ASCII part
  of \<^verbatim>\<open>\s\<close>.
\<close>

definition regex_other :: "char \<Rightarrow> bool" where
  "regex_other c = (c \<noteq> CHR ''@'' \<and> c \<noteq> CHR '' '' \<and> c \<noteq> CHR 0x09 \<and> c \<noteq> CHR 0x0A
                      \<and> c \<noteq> CHR 0x0B \<and> c \<noteq> CHR 0x0C \<and> c \<noteq> CHR 0x0D)"

definition emailRegex_test :: "string \<Rightarrow> bool" where
  "emailRegex_test e =
     (let local_part = takeWhile (\<lambda>c. c \<noteq> CHR ''@'') e;
          rest = drop (Suc (length local_part)) e
      in local_part \<noteq> [] \<and> list_all regex_other local_part \<and> length local_part < length e
         \<and> list_all regex_other rest \<and> CHR ''.'' \<in> set (butlast (tl rest)))"

text \<open>
  \<^verbatim>\<open>app.post('/api/auth/register')\<close>. \<open>hash\<close> is \<^verbatim>\<open>bcrypt.hash(_, 10)\<close>, \<open>new_id\<close> and \<open>uuid\<close>
  are the two \<^verbatim>\<open>uuidv4()\<close> values (the row's id and the \<^verbatim>\<open>jwtid\<close>), \<open>role_opt\<close> is \<open>None\<close>
  when the body has no role. The \<^verbatim>\<open>INSERT\<close> throws, and the handler answers 500, when the id is taken or
  the role violates the table's \<^verbatim>\<open>CHECK\<close>.
\<close>

definition register ::
  "config \<Rightarrow> (string \<Rightarrow> string) \<Rightarrow> server \<Rightarrow> int \<Rightarrow> string \<Rightarrow> string \<Rightarrow> string \<Rightarrow> string
     \<Rightarrow> string \<Rightarrow> string option \<Rightarrow> response \<times> server" where
  "register cfg hash s now new_id uuid email password name role_opt =
     (let role = (case role_opt of None \<Rightarrow> ''applicant'' | Some r \<Rightarrow> r)
      in if email = [] \<or> password = [] \<or> name = []
         then (\<lparr> status = 400, body = Message ''Email, password, and name are required'' \<rparr>, s)
         else if \<not> emailRegex_test email
         then (\<lparr> status = 400, body = Message ''Invalid email format'' \<rparr>, s)
         else if length password < 8
         then (\<lparr> status = 400, body = Message ''Password must be at least 8 characters'' \<rparr>, s)
         else if queryOne_email (users s) email \<noteq> None
         then (\<lparr> status = 400, body = Message ''Email already registered'' \<rparr>, s)
         else if \<not> (queryOne_id (users s) new_id = None
                    \<and> role \<in> set [''admin'', ''officer'', ''applicant''])
         then (\<lparr> status = 500, body = Message ''Registration failed'' \<rparr>, s)
         else
           (let s1 = s\<lparr> users := users s @
                           [\<lparr> row_id = new_id, row_email = email, password_hash = hash password,
                              row_name = name, row_role = role \<rparr>],
                         sessionTokenVersions := (sessionTokenVersions s)(new_id \<mapsto> 1) \<rparr>;
                u = \<lparr> user_id = new_id, user_email = email, user_name = name, user_role = role \<rparr>;
                t = generateToken cfg s1 now uuid u
            in (\<lparr> status = 201, body = SessionBody ''Registration successful'' u t \<rparr>,
                s1\<lparr> activeSessions :=
                      (activeSessions s1)(new_id \<mapsto>
                         set_add t (case activeSessions s1 new_id of None \<Rightarrow> [] | Some ts \<Rightarrow> ts)) \<rparr>)))"

text \<open>
  The body of the \<^verbatim>\<open>setInterval\<close> sweep for one entry, and the sweep over the registry:
  \<^verbatim>\<open>Array.from(tokens).slice(0, tokens.size - MAX_CONCURRENT_SESSIONS)\<close> deleted one by one.
\<close>

definition sweep_entry :: "int \<Rightarrow> token list \<Rightarrow> token list" where
  "sweep_entry maxSessions tokens =
     (if int (length tokens) > maxSessions
      then fold set_delete (take (nat (int (length tokens) - maxSessions)) tokens) tokens
      else tokens)"


section \<open>Role-gated user management\<close>

text \<open>
  \<^verbatim>\<open>app.get('/api/users')\<close> and \<^verbatim>\<open>app.put('/api/users/:id/role')\<close>. The listing's
  \<^verbatim>\<open>ORDER BY created_at\<close> is not modelled: rows come in table order.
\<close>

definition get_users :: "config \<Rightarrow> server \<Rightarrow> int \<Rightarrow> token option \<Rightarrow> response" where
  "get_users cfg s now bearer =
     (case authenticateToken cfg now bearer of
        Inl r \<Rightarrow> r
      | Inr u \<Rightarrow>
          if claim_role u \<noteq> ''admin''
          then \<lparr> status = 403, body = Message ''Admin access required'' \<rparr>
          else \<lparr> status = 200, body = UsersBody (map row_user (users s)) \<rparr>)"

definition put_user_role ::
  "config \<Rightarrow> server \<Rightarrow> int \<Rightarrow> token option \<Rightarrow> string \<Rightarrow> string \<Rightarrow> response \<times> server" where
  "put_user_role cfg s now bearer target role =
     (case authenticateToken cfg now bearer of
        Inl r \<Rightarrow> (r, s)
      | Inr u \<Rightarrow>
          if claim_role u \<noteq> ''admin''
          then (\<lparr> status = 403, body = Message ''Admin access required'' \<rparr>, s)
          else if role \<notin> set [''admin'', ''officer'', ''applicant'']
          then (\<lparr> status = 400, body = Message ''Invalid role'' \<rparr>, s)
          else (\<lparr> status = 200, body = Message ''User role updated'' \<rparr>,
                s\<lparr> users := map (\<lambda>r. if row_id r = target then r\<lparr> row_role := role \<rparr> else r)
                                (users s) \<rparr>))"

text \<open>
  \<^verbatim>\<open>app.delete('/api/users/:id')\<close>, the third handler that is open to admins only.
\<close>

definition delete_user ::
  "config \<Rightarrow> server \<Rightarrow> int \<Rightarrow> token option \<Rightarrow> string \<Rightarrow> response \<times> server" where
  "delete_user cfg s now bearer target =
     (case authenticateToken cfg now bearer of
        Inl r \<Rightarrow> (r, s)
      | Inr u \<Rightarrow>
          if claim_role u \<noteq> ''admin''
          then (\<lparr> status = 403, body = Message ''Admin access required'' \<rparr>, s)
          else if target = claim_id u
          then (\<lparr> status = 400, body = Message ''Cannot delete your own account'' \<rparr>, s)
          else (\<lparr> status = 200, body = Message ''User deleted'' \<rparr>,
                s\<lparr> users := filter (\<lambda>r. row_id r \<noteq> target) (users s) \<rparr>))"

section \<open>The role tests of the other protected routes\<close>

text \<open>
  The other tables of the database, with the columns that the handlers read before or in
  their tests of \<^verbatim>\<open>req.user.role\<close>; \<open>programs\<close> holds the ids of the rows of that table.
\<close>

record application =
  app_id :: string
  app_user_id :: string
  app_program_id :: string
  app_status :: string

record document =
  doc_id :: string
  doc_application_id :: string

record review =
  rev_id :: string
  rev_application_id :: string
  rev_reviewer_id :: string

record tables =
  programs :: "string list"
  applications :: "application list"
  documents :: "document list"
  reviews :: "review list"

text \<open>
  \<^verbatim>\<open>queryOne('SELECT * FROM applications WHERE id = ?')\<close>, the same joined with \<^verbatim>\<open>programs\<close>
  (\<^verbatim>\<open>JOIN programs p ON a.program_id = p.id WHERE a.id = ?\<close>), and the look-ups of a document
  and of a review by id.
\<close>

definition application_by_id :: "tables \<Rightarrow> string \<Rightarrow> application option" where
  "application_by_id tb i = find (\<lambda>a. app_id a = i) (applications tb)"

definition application_with_program :: "tables \<Rightarrow> string \<Rightarrow> application option" where
  "application_with_program tb i =
     find (\<lambda>a. app_id a = i \<and> app_program_id a \<in> set (programs tb)) (applications tb)"

definition document_by_id :: "tables \<Rightarrow> string \<Rightarrow> document option" where
  "document_by_id tb i = find (\<lambda>d. doc_id d = i) (documents tb)"

definition review_by_id :: "tables \<Rightarrow> string \<Rightarrow> review option" where
  "review_by_id tb i = find (\<lambda>v. rev_id v = i) (reviews tb)"

text \<open>
  A route registered as \<^verbatim>\<open>app.METHOD(path, authenticateToken, handler)\<close>: the middleware's
  rejection, or the handler run with \<^verbatim>\<open>req.user\<close>.
\<close>

definition behind_authenticateToken ::
  "config \<Rightarrow> int \<Rightarrow> token option \<Rightarrow> (claims \<Rightarrow> response option) \<Rightarrow> response option" where
  "behind_authenticateToken cfg now bearer handler =
     (case authenticateToken cfg now bearer of Inl r \<Rightarrow> Some r | Inr u \<Rightarrow> handler u)"

text \<open>
  Every other handler that tests \<^verbatim>\<open>req.user.role\<close>, each up to and including its last such
  test: the result is the response sent up to there, or \<open>None\<close> when the request has passed
  every test and the handler goes on to its query or update. Each takes the server state
  \<open>s\<close> (with the \<^verbatim>\<open>users\<close> table) and the other tables \<open>tb\<close>, as the handler can read both.
  The one handler that reads a role from the \<^verbatim>\<open>users\<close> table, \<^verbatim>\<open>app.post('/api/ai/chat')\<close>,
  passes it to the assistant as context and rejects nobody by it; it is not among these.

  \<^verbatim>\<open>app.post('/api/documents')\<close>, \<^verbatim>\<open>app.get('/api/documents/:applicationId')\<close> and
  \<^verbatim>\<open>app.delete('/api/documents/:id')\<close>; in the last one \<^verbatim>\<open>application?.user_id\<close> is
  \<^verbatim>\<open>undefined\<close>, and so different from the id, when the application is missing.
\<close>

definition post_document_gate ::
  "config \<Rightarrow> server \<Rightarrow> tables \<Rightarrow> int \<Rightarrow> token option \<Rightarrow> string \<Rightarrow> string \<Rightarrow> string
     \<Rightarrow> response option" where
  "post_document_gate cfg s tb now bearer applicationId documentType fileName =
     behind_authenticateToken cfg now bearer (\<lambda>u.
       if applicationId = [] \<or> documentType = [] \<or> fileName = []
       then Some \<lparr> status = 400,
                   body = Message ''Application ID, document type, and filename required'' \<rparr>
       else
         (case application_by_id tb applicationId of
            None \<Rightarrow> Some \<lparr> status = 404, body = Message ''Application not found'' \<rparr>
          | Some a \<Rightarrow>
              if claim_role u = ''applicant'' \<and> app_user_id a \<noteq> claim_id u
              then Some \<lparr> status = 403, body = Message ''Access denied'' \<rparr>
              else None))"

definition get_documents_gate ::
  "config \<Rightarrow> server \<Rightarrow> tables \<Rightarrow> int \<Rightarrow> token option \<Rightarrow> string \<Rightarrow> response option" where
  "get_documents_gate cfg s tb now bearer applicationId =
     behind_authenticateToken cfg now bearer (\<lambda>u.
       case application_by_id tb applicationId of
         None \<Rightarrow> Some \<lparr> status = 404, body = Message ''Application not found'' \<rparr>
       | Some a \<Rightarrow>
           if claim_role u = ''applicant'' \<and> app_user_id a \<noteq> claim_id u
           then Some \<lparr> status = 403, body = Message ''Access denied'' \<rparr>
           else None)"

definition delete_document_gate ::
  "config \<Rightarrow> server \<Rightarrow> tables \<Rightarrow> int \<Rightarrow> token option \<Rightarrow> string \<Rightarrow> response option" where
  "delete_document_gate cfg s tb now bearer i =
     behind_authenticateToken cfg now bearer (\<lambda>u.
       case document_by_id tb i of
         None \<Rightarrow> Some \<lparr> status = 404, body = Message ''Document not found'' \<rparr>
       | Some d \<Rightarrow>
           if claim_role u = ''applicant''
              \<and> (case application_by_id tb (doc_application_id d) of
                    None \<Rightarrow> True
                  | Some a \<Rightarrow> app_user_id a \<noteq> claim_id u)
           then Some \<lparr> status = 403, body = Message ''Access denied'' \<rparr>
           else None)"

text \<open>\<^verbatim>\<open>app.put('/api/applications/:id/status')\<close>; \<open>new_status\<close> is the body's \<^verbatim>\<open>status\<close>.\<close>

definition put_application_status_gate ::
  "config \<Rightarrow> server \<Rightarrow> tables \<Rightarrow> int \<Rightarrow> token option \<Rightarrow> string \<Rightarrow> string \<Rightarrow> response option" where
  "put_application_status_gate cfg s tb now bearer i new_status =
     behind_authenticateToken cfg now bearer (\<lambda>u.
       if new_status \<notin> set [''draft'', ''submitted'', ''under_review'', ''accepted'', ''rejected'']
       then Some \<lparr> status = 400, body = Message ''Invalid status'' \<rparr>
       else
         (case application_by_id tb i of
            None \<Rightarrow> Some \<lparr> status = 404, body = Message ''Application not found'' \<rparr>
          | Some a \<Rightarrow>
              if claim_role u = ''applicant'' \<and> app_user_id a \<noteq> claim_id u
              then Some \<lparr> status = 403, body = Message ''Access denied'' \<rparr>
              else if claim_role u = ''applicant''
                      \<and> (new_status \<noteq> ''submitted'' \<or> app_status a \<noteq> ''draft'')
              then Some \<lparr> status = 403,
                          body = Message ''Applicants can only submit draft applications'' \<rparr>
              else if new_status \<in> set [''under_review'', ''accepted'', ''rejected'']
                      \<and> claim_role u \<notin> set [''admin'', ''officer'']
              then Some \<lparr> status = 403,
                          body = Message ''Only admissions officers can change to this status'' \<rparr>
              else None))"

text \<open>\<^verbatim>\<open>app.get('/api/reports')\<close> (the message is the source's) and \<^verbatim>\<open>app.get('/api/audit-logs')\<close>.\<close>

definition get_reports_gate ::
  "config \<Rightarrow> server \<Rightarrow> tables \<Rightarrow> int \<Rightarrow> token option \<Rightarrow> response option" where
  "get_reports_gate cfg s tb now bearer =
     behind_authenticateToken cfg now bearer (\<lambda>u.
       if claim_role u \<notin> set [''admin'', ''officer'']
       then Some \<lparr> status = 403, body = Message ''Access access required'' \<rparr>
       else None)"

definition get_audit_logs_gate ::
  "config \<Rightarrow> server \<Rightarrow> tables \<Rightarrow> int \<Rightarrow> token option \<Rightarrow> response option" where
  "get_audit_logs_gate cfg s tb now bearer =
     behind_authenticateToken cfg now bearer (\<lambda>u.
       if claim_role u \<noteq> ''admin''
       then Some \<lparr> status = 403, body = Message ''Admin access required'' \<rparr>
       else None)"

text \<open>
  \<^verbatim>\<open>app.get('/api/applications')\<close> and \<^verbatim>\<open>app.get('/api/dashboard/stats')\<close> reject nobody by
  role; the role decides whether the rows are restricted to \<^verbatim>\<open>user_id = req.user.id\<close>. The
  result is the middleware's rejection, or that restriction (\<open>None\<close>: all rows).
\<close>

definition get_applications_scope ::
  "config \<Rightarrow> server \<Rightarrow> tables \<Rightarrow> int \<Rightarrow> token option \<Rightarrow> response + string option" where
  "get_applications_scope cfg s tb now bearer =
     (case authenticateToken cfg now bearer of
        Inl r \<Rightarrow> Inl r
      | Inr u \<Rightarrow> Inr (if claim_role u = ''applicant'' then Some (claim_id u) else None))"

definition dashboard_stats_scope ::
  "config \<Rightarrow> server \<Rightarrow> tables \<Rightarrow> int \<Rightarrow> token option \<Rightarrow> response + string option" where
  "dashboard_stats_scope cfg s tb now bearer =
     (case authenticateToken cfg now bearer of
        Inl r \<Rightarrow> Inl r
      | Inr u \<Rightarrow> Inr (if claim_role u = ''applicant'' then Some (claim_id u) else None))"

text \<open>
  \<^verbatim>\<open>app.get('/api/applications/:id')\<close> (its query joins \<^verbatim>\<open>programs\<close>),
  \<^verbatim>\<open>app.put('/api/applications/:id')\<close> and \<^verbatim>\<open>app.delete('/api/applications/:id')\<close>.
\<close>

definition get_application_gate ::
  "config \<Rightarrow> server \<Rightarrow> tables \<Rightarrow> int \<Rightarrow> token option \<Rightarrow> string \<Rightarrow> response option" where
  "get_application_gate cfg s tb now bearer i =
     behind_authenticateToken cfg now bearer (\<lambda>u.
       case application_with_program tb i of
         None \<Rightarrow> Some \<lparr> status = 404, body = Message ''Application not found'' \<rparr>
       | Some a \<Rightarrow>
           if claim_role u = ''applicant'' \<and> app_user_id a \<noteq> claim_id u
           then Some \<lparr> status = 403, body = Message ''Access denied'' \<rparr>
           else None)"

definition put_application_gate ::
  "config \<Rightarrow> server \<Rightarrow> tables \<Rightarrow> int \<Rightarrow> token option \<Rightarrow> string \<Rightarrow> response option" where
  "put_application_gate cfg s tb now bearer i =
     behind_authenticateToken cfg now bearer (\<lambda>u.
       case application_by_id tb i of
         None \<Rightarrow> Some \<lparr> status = 404, body = Message ''Application not found'' \<rparr>
       | Some a \<Rightarrow>
           if claim_role u = ''applicant'' \<and> app_user_id a \<noteq> claim_id u
           then Some \<lparr> status = 403, body = Message ''Access denied'' \<rparr>
           else None)"

definition delete_application_gate ::
  "config \<Rightarrow> server \<Rightarrow> tables \<Rightarrow> int \<Rightarrow> token option \<Rightarrow> string \<Rightarrow> response option" where
  "delete_application_gate cfg s tb now bearer i =
     behind_authenticateToken cfg now bearer (\<lambda>u.
       case application_by_id tb i of
         None \<Rightarrow> Some \<lparr> status = 404, body = Message ''Application not found'' \<rparr>
       | Some a \<Rightarrow>
           if claim_role u = ''applicant'' \<and> app_user_id a \<noteq> claim_id u
           then Some \<lparr> status = 403, body = Message ''Access denied'' \<rparr>
           else None)"

text \<open>
  The handler of \<^verbatim>\<open>app.get('/api/applications/export')\<close>. It is registered after
  \<^verbatim>\<open>/api/applications/:id\<close>, which answers that path first; the definition is the handler's
  own test.
\<close>

definition export_applications_gate ::
  "config \<Rightarrow> server \<Rightarrow> tables \<Rightarrow> int \<Rightarrow> token option \<Rightarrow> response option" where
  "export_applications_gate cfg s tb now bearer =
     behind_authenticateToken cfg now bearer (\<lambda>u.
       if claim_role u = ''applicant''
       then Some \<lparr> status = 403, body = Message ''Access denied'' \<rparr>
       else None)"

text \<open>
  The five handlers under \<^verbatim>\<open>/api/reviews\<close>: \<^verbatim>\<open>get\<close>, \<^verbatim>\<open>get('/:applicationId')\<close> and \<^verbatim>\<open>post\<close>
  test the role only (the tests of \<^verbatim>\<open>post\<close> that follow are not role tests);
  \<^verbatim>\<open>put('/:id')\<close> and \<^verbatim>\<open>delete('/:id')\<close> go on to the reviewer test.
\<close>

definition get_reviews_gate ::
  "config \<Rightarrow> server \<Rightarrow> tables \<Rightarrow> int \<Rightarrow> token option \<Rightarrow> response option" where
  "get_reviews_gate cfg s tb now bearer =
     behind_authenticateToken cfg now bearer (\<lambda>u.
       if claim_role u \<notin> set [''admin'', ''officer'']
       then Some \<lparr> status = 403, body = Message ''Admin or officer access required'' \<rparr>
       else None)"

definition get_review_gate ::
  "config \<Rightarrow> server \<Rightarrow> tables \<Rightarrow> int \<Rightarrow> token option \<Rightarrow> string \<Rightarrow> response option" where
  "get_review_gate cfg s tb now bearer applicationId =
     behind_authenticateToken cfg now bearer (\<lambda>u.
       if claim_role u \<notin> set [''admin'', ''officer'']
       then Some \<lparr> status = 403, body = Message ''Admin or officer access required'' \<rparr>
       else None)"

definition post_review_gate ::
  "config \<Rightarrow> server \<Rightarrow> tables \<Rightarrow> int \<Rightarrow> token option \<Rightarrow> response option" where
  "post_review_gate cfg s tb now bearer =
     behind_authenticateToken cfg now bearer (\<lambda>u.
       if claim_role u \<notin> set [''admin'', ''officer'']
       then Some \<lparr> status = 403, body = Message ''Admin or officer access required'' \<rparr>
       else None)"

definition put_review_gate ::
  "config \<Rightarrow> server \<Rightarrow> tables \<Rightarrow> int \<Rightarrow> token option \<Rightarrow> string \<Rightarrow> response option" where
  "put_review_gate cfg s tb now bearer i =
     behind_authenticateToken cfg now bearer (\<lambda>u.
       if claim_role u \<notin> set [''admin'', ''officer'']
       then Some \<lparr> status = 403, body = Message ''Admin or officer access required'' \<rparr>
       else
         (case review_by_id tb i of
            None \<Rightarrow> Some \<lparr> status = 404, body = Message ''Review not found'' \<rparr>
          | Some v \<Rightarrow>
              if claim_role u \<noteq> ''admin'' \<and> rev_reviewer_id v \<noteq> claim_id u
              then Some \<lparr> status = 403, body = Message ''Not authorized to update this review'' \<rparr>
              else None))"

definition delete_review_gate ::
  "config \<Rightarrow> server \<Rightarrow> tables \<Rightarrow> int \<Rightarrow> token option \<Rightarrow> string \<Rightarrow> response option" where
  "delete_review_gate cfg s tb now bearer i =
     behind_authenticateToken cfg now bearer (\<lambda>u.
       if claim_role u \<notin> set [''admin'', ''officer'']
       then Some \<lparr> status = 403, body = Message ''Admin or officer access required'' \<rparr>
       else
         (case review_by_id tb i of
            None \<Rightarrow> Some \<lparr> status = 404, body = Message ''Review not found'' \<rparr>
          | Some v \<Rightarrow>
              if claim_role u \<noteq> ''admin'' \<and> rev_reviewer_id v \<noteq> claim_id u
              then Some \<lparr> status = 403, body = Message ''Not authorized to delete this review'' \<rparr>
              else None))"

section \<open>Session version store\<close>

text \<open>
  Modelled from the spec: \<^verbatim>\<open>currentVersion\<close> and \<^verbatim>\<open>bumpVersion\<close> of the Session Version Store
  (spec 4.3), which no source file defines; the source only ever stores the version 1.
  \<^verbatim>\<open>currentVersion\<close> "returns stored version, defaulting to 1 if principal has never been
  recorded"; \<^verbatim>\<open>bumpVersion\<close> "atomically increments the stored version".
\<close>

definition currentVersion :: "server \<Rightarrow> string \<Rightarrow> int" where
  "currentVersion s principalId =
     (case sessionTokenVersions s principalId of None \<Rightarrow> 1 | Some v \<Rightarrow> v)"

definition bumpVersion :: "string \<Rightarrow> server \<Rightarrow> server" where
  "bumpVersion principalId s =
     s\<lparr> sessionTokenVersions :=
          (sessionTokenVersions s)(principalId \<mapsto> currentVersion s principalId + 1) \<rparr>"

section \<open>Client idle tracker (AuthProvider)\<close>



text \<open>
  The state of the \<^verbatim>\<open>AuthProvider\<close> component: its React state, its refs and the two
  \<^verbatim>\<open>localStorage\<close> items. A timer ref is \<open>Some due\<close> while the timer it names is pending
  (\<open>due\<close> is the clock value at which the browser runs it) and \<open>None\<close> once the timer has
  run or was cleared; for the interval, the value is the \<^verbatim>\<open>endTime\<close> its callback closes over.
  \<open>effect_user\<close> is the value of \<^verbatim>\<open>user\<close> with which the activity-listener effect last ran,
  which is the \<^verbatim>\<open>user\<close> its listener \<^verbatim>\<open>handleActivity\<close> closes over. \<open>logoutRequests\<close> counts
  the calls of the asynchronous \<^verbatim>\<open>logout\<close> that wait at
  \<^verbatim>\<open>await fetch('/api/auth/logout', ...)\<close>.
\<close>

record auth_provider =
  user_state :: "user option"
  showTimeoutWarning :: bool
  remainingTime :: int
  timeoutRef :: "int option"
  warningTimeoutRef :: "int option"
  countdownIntervalRef :: "int option"
  lastActivityRef :: int
  authToken :: "token option"
  storedUser :: "user option"
  effect_user :: "user option"
  logoutRequests :: nat








text \<open>One tick of the countdown interval at clock \<open>now\<close>.\<close>

definition countdown_tick :: "int \<Rightarrow> auth_provider \<Rightarrow> auth_provider" where
  "countdown_tick now c =
     (case countdownIntervalRef c of
        None \<Rightarrow> c
      | Some endTime \<Rightarrow>
          (let remaining = max 0 \<lceil>real_of_int (endTime - now) / 1000\<rceil>;
               c1 = c\<lparr> remainingTime := remaining * 1000 \<rparr>
           in if remaining \<le> 0 then c1\<lparr> countdownIntervalRef := None \<rparr> else c1))"






section \<open>Predicates used to state the properties\<close>

text \<open>A middleware admits a request when it calls \<^verbatim>\<open>next()\<close>.\<close>

definition admitted :: "response + claims \<Rightarrow> bool" where
  "admitted r = (case r of Inl _ \<Rightarrow> False | Inr _ \<Rightarrow> True)"

text \<open>
  Token validity in the words of the spec's invariant (section 3): the signature verifies,
  the current time is before the expiry, and the embedded session version equals the
  principal's current version counter, 1 when never recorded.
\<close>

definition spec_valid :: "config \<Rightarrow> server \<Rightarrow> int \<Rightarrow> token \<Rightarrow> bool" where
  "spec_valid cfg s now t =
     (case t of
        Malformed _ \<Rightarrow> False
      | Signed key c \<Rightarrow>
          key = JWT_SECRET cfg \<and> now div 1000 < exp_at c
          \<and> sessionVersion c = Some (currentVersion s (claim_id c)))"

text \<open>
  \<^verbatim>\<open>isLive(principalId, token)\<close> of the spec's registry (section 4.2): membership, the test
  \<^verbatim>\<open>userSessions.has(token)\<close> of the source.
\<close>

definition isLive :: "server \<Rightarrow> string \<Rightarrow> token \<Rightarrow> bool" where
  "isLive s principalId t =
     (case activeSessions s principalId of None \<Rightarrow> False | Some ts \<Rightarrow> t \<in> set ts)"


section \<open>Example data\<close>

definition ex_cfg :: config where
  "ex_cfg = \<lparr> JWT_SECRET = ''k'', MAX_CONCURRENT_SESSIONS = 5 \<rparr>"

definition ex_hash :: "string \<Rightarrow> string" where
  "ex_hash p = ''h:'' @ p"

definition ex_compare :: "string \<Rightarrow> string \<Rightarrow> bool" where
  "ex_compare p h = (h = ex_hash p)"

definition alice :: user where
  "alice = \<lparr> user_id = ''u1'', user_email = ''a@b.co'', user_name = ''Alice'',
             user_role = ''applicant'' \<rparr>"

definition alice_row :: user_row where
  "alice_row = \<lparr> row_id = ''u1'', row_email = ''a@b.co'', password_hash = ''h:password1'',
                 row_name = ''Alice'', row_role = ''applicant'' \<rparr>"

definition root_row :: user_row where
  "root_row = \<lparr> row_id = ''u0'', row_email = ''root@b.co'', password_hash = ''h:password0'',
                row_name = ''Root'', row_role = ''admin'' \<rparr>"

definition empty_server :: server where
  "empty_server = \<lparr> activeSessions = Map.empty, sessionTokenVersions = Map.empty,
                    loginAttempts = Map.empty, users = [] \<rparr>"

text \<open>A server whose table has two rows and whose maps are empty, as after a restart.\<close>

definition ex_server :: server where
  "ex_server = \<lparr> activeSessions = Map.empty, sessionTokenVersions = Map.empty,
                 loginAttempts = Map.empty, users = [root_row, alice_row] \<rparr>"

definition alice_claims :: "int \<Rightarrow> string \<Rightarrow> claims" where
  "alice_claims v j =
     \<lparr> claim_id = ''u1'', claim_email = ''a@b.co'', claim_name = ''Alice'',
       claim_role = ''applicant'', sessionVersion = Some v, iat = 0, exp_at = 86400, jti = j \<rparr>"

definition root_claims :: claims where
  "root_claims =
     \<lparr> claim_id = ''u0'', claim_email = ''root@b.co'', claim_name = ''Root'',
       claim_role = ''admin'', sessionVersion = Some 1, iat = 0, exp_at = 86400, jti = ''j9'' \<rparr>"

text \<open>Alice registers on an empty server at clock 0; then her version is bumped.\<close>

definition alice_registered :: "response \<times> server" where
  "alice_registered =
     register ex_cfg ex_hash empty_server 0 ''u1'' ''j1'' ''a@b.co'' ''password1'' ''Alice'' None"

definition alice_bumped :: server where
  "alice_bumped = bumpVersion ''u1'' (snd alice_registered)"

text \<open>A token signed with another key, and a server whose throttle is at its threshold.\<close>

definition forged_token :: token where
  "forged_token = Signed ''other'' (alice_claims 1 ''j1'')"

definition throttled_server :: server where
  "throttled_server =
     ex_server\<lparr> loginAttempts := [''a@b.co'' \<mapsto> \<lparr> count = 5, resetTime = 900000 \<rparr>] \<rparr>"

text \<open>Alice holds three live sessions; the root user holds one.\<close>

definition three_sessions :: server where
  "three_sessions =
     ex_server\<lparr> activeSessions :=
       [''u1'' \<mapsto> [Signed ''k'' (alice_claims 1 ''j1''), Signed ''k'' (alice_claims 1 ''j2''),
                  Signed ''k'' (alice_claims 1 ''j3'')],
        ''u0'' \<mapsto> [Signed ''k'' root_claims]],
       sessionTokenVersions := [''u1'' \<mapsto> 1] \<rparr>"

text \<open>The root user promotes Alice to admin in the table.\<close>

definition alice_promoted :: "response \<times> server" where
  "alice_promoted =
     put_user_role ex_cfg ex_server 1000 (Some (Signed ''k'' root_claims)) ''u1'' ''admin''"

text \<open>
  Two contents of the other tables: application \<^verbatim>\<open>a1\<close> belongs to Alice in the first and to
  the root user in the second.
\<close>

definition own_tables :: tables where
  "own_tables =
     \<lparr> programs = [''p1''],
       applications = [\<lparr> app_id = ''a1'', app_user_id = ''u1'', app_program_id = ''p1'',
                         app_status = ''draft'' \<rparr>],
       documents = [], reviews = [] \<rparr>"

definition foreign_tables :: tables where
  "foreign_tables =
     \<lparr> programs = [''p1''],
       applications = [\<lparr> app_id = ''a1'', app_user_id = ''u0'', app_program_id = ''p1'',
                         app_status = ''draft'' \<rparr>],
       documents = [], reviews = [] \<rparr>"







text \<open>Six logins of Alice with the right password, at clocks 0 to 5 ms.\<close>

definition login1 :: "response \<times> server" where
  "login1 = login ex_cfg ex_compare ex_server 0 ''j1'' ''a@b.co'' ''password1''"

definition login2 :: "response \<times> server" where
  "login2 = login ex_cfg ex_compare (snd login1) 1 ''j2'' ''a@b.co'' ''password1''"

definition login3 :: "response \<times> server" where
  "login3 = login ex_cfg ex_compare (snd login2) 2 ''j3'' ''a@b.co'' ''password1''"

definition login4 :: "response \<times> server" where
  "login4 = login ex_cfg ex_compare (snd login3) 3 ''j4'' ''a@b.co'' ''password1''"

definition login5 :: "response \<times> server" where
  "login5 = login ex_cfg ex_compare (snd login4) 4 ''j5'' ''a@b.co'' ''password1''"

definition login6 :: "response \<times> server" where
  "login6 = login ex_cfg ex_compare (snd login5) 5 ''j6'' ''a@b.co'' ''password1''"

definition alice_token :: "string \<Rightarrow> token" where
  "alice_token j = Signed ''k'' (alice_claims 1 j)"

definition sessions_server :: "token list \<Rightarrow> server" where
  "sessions_server ts =
     ex_server\<lparr> activeSessions := [''u1'' \<mapsto> ts],
                loginAttempts := [''a@b.co'' \<mapsto> \<lparr> count = 0, resetTime = 900000 \<rparr>] \<rparr>"



section \<open>Request validation: properties\<close>

lemma jwt_verify_Inr_iff:
  "jwt_verify t secret now = Inr c \<longleftrightarrow> t = Signed secret c \<and> now div 1000 < exp_at c"
  by (cases t) (auto simp: jwt_verify_def)

lemma jwt_verify_generateToken:
  "now div 1000 < now0 div 1000 + 86400 \<Longrightarrow>
     \<exists>c. jwt_verify (generateToken cfg s now0 uuid u) (JWT_SECRET cfg) now = Inr c
          \<and> claim_id c = user_id u \<and> claim_role c = user_role u"
  by (simp add: jwt_verify_def generateToken_def)

lemma alice_registered_eq:
  "alice_registered =
     (\<lparr> status = 201,
        body = SessionBody ''Registration successful'' alice (Signed ''k'' (alice_claims 1 ''j1'')) \<rparr>,
      \<lparr> activeSessions = [''u1'' \<mapsto> [Signed ''k'' (alice_claims 1 ''j1'')]],
        sessionTokenVersions = [''u1'' \<mapsto> 1], loginAttempts = Map.empty,
        users = [alice_row] \<rparr>)"
  by (simp add: alice_registered_def register_def emailRegex_test_def regex_other_def
      queryOne_email_def queryOne_id_def generateToken_def set_add_def ex_cfg_def ex_hash_def
      empty_server_def alice_def alice_claims_def alice_row_def Let_def)

text \<open>
  C1. After a version bump, \<^verbatim>\<open>GET /api/auth/me\<close> should reject a token issued before the
  bump with a version-mismatch error. The route runs \<^verbatim>\<open>authenticateToken\<close>, which never
  reads the version store: Alice's token from her registration (version 1) is still
  answered with status 200 after the bump to version 2, although \<^verbatim>\<open>validateSession\<close>, the
  middleware that holds the version check, rejects it. A token issued after the bump is
  accepted by both.
\<close>

theorem auth_me_accepts_token_issued_before_bump:
  "body (fst alice_registered)
     = SessionBody ''Registration successful'' alice (Signed ''k'' (alice_claims 1 ''j1''))
   \<and> currentVersion (snd alice_registered) ''u1'' = 1
   \<and> currentVersion alice_bumped ''u1'' = 2
   \<and> auth_me ex_cfg alice_bumped 1000 (Some (Signed ''k'' (alice_claims 1 ''j1'')))
       = \<lparr> status = 200, body = UserBody alice \<rparr>
   \<and> validateSession ex_cfg alice_bumped 1000 (Some (Signed ''k'' (alice_claims 1 ''j1'')))
       = Inl \<lparr> status = 403, body = Message ''Session invalidated. Please log in again.'' \<rparr>
   \<and> generateToken ex_cfg alice_bumped 0 ''j2'' alice = Signed ''k'' (alice_claims 2 ''j2'')
   \<and> auth_me ex_cfg alice_bumped 1000 (Some (Signed ''k'' (alice_claims 2 ''j2'')))
       = \<lparr> status = 200, body = UserBody alice \<rparr>"
  by (simp add: alice_registered_eq alice_bumped_def bumpVersion_def currentVersion_def
      auth_me_def authenticateToken_def validateSession_def jwt_verify_def generateToken_def
      queryOne_id_def row_user_def ex_cfg_def alice_def alice_claims_def alice_row_def)

text \<open>
  C2, as stated: a token is admitted by \<^verbatim>\<open>validateSession\<close> iff it is valid in the spec's
  sense. It fails for a principal the version store has never recorded: the check is
  skipped there, so a token stamped with version 2 is admitted although the default
  version is 1.
\<close>

theorem validateSession_unrecorded_counterexample:
  "admitted (validateSession ex_cfg ex_server 1000 (Some (Signed ''k'' (alice_claims 2 ''j1''))))
   \<and> \<not> spec_valid ex_cfg ex_server 1000 (Signed ''k'' (alice_claims 2 ''j1''))"
  by (simp add: admitted_def validateSession_def jwt_verify_def spec_valid_def
      currentVersion_def ex_cfg_def ex_server_def alice_claims_def)

text \<open>
  C2, amended: \<^verbatim>\<open>validateSession\<close> admits a presented token iff (a) its signature verifies
  under the server secret, (b) the current time is before its expiry, and (c) the
  principal has no recorded version (none, or 0), or the embedded session version equals
  the recorded one.
\<close>

theorem validateSession_admits_iff:
  "admitted (validateSession cfg s now (Some t)) \<longleftrightarrow>
     (\<exists>c. t = Signed (JWT_SECRET cfg) c \<and> now div 1000 < exp_at c \<and>
          (sessionTokenVersions s (claim_id c) = None
           \<or> sessionTokenVersions s (claim_id c) = Some 0
           \<or> sessionTokenVersions s (claim_id c) = sessionVersion c))"
  by (cases t) (auto simp: admitted_def validateSession_def jwt_verify_def
      split: option.splits sum.splits jwt_error.splits if_splits)

theorem validateSession_admits_iff_witness:
  "admitted (validateSession ex_cfg alice_bumped 1000 (Some (Signed ''k'' (alice_claims 2 ''j2''))))
   \<and> \<not> admitted (validateSession ex_cfg alice_bumped 1000 (Some (Signed ''k'' (alice_claims 1 ''j1''))))"
  using validateSession_admits_iff [of ex_cfg alice_bumped 1000 "Signed ''k'' (alice_claims 2 ''j2'')"]
    validateSession_admits_iff [of ex_cfg alice_bumped 1000 "Signed ''k'' (alice_claims 1 ''j1'')"]
  by (simp add: alice_registered_eq alice_bumped_def bumpVersion_def currentVersion_def
      ex_cfg_def alice_claims_def)

lemma validateSession_None:
  "validateSession cfg s now None
     = Inl \<lparr> status = 401, body = Message ''Authentication required'' \<rparr>"
  by (simp add: validateSession_def)

lemma authenticateToken_None:
  "authenticateToken cfg now None
     = Inl \<lparr> status = 401, body = Message ''Authentication required'' \<rparr>"
  by (simp add: authenticateToken_def)

lemma validateSession_invalid:
  "t \<noteq> Malformed [] \<Longrightarrow> jwt_verify t (JWT_SECRET cfg) now = Inl JsonWebTokenError \<Longrightarrow>
     validateSession cfg s now (Some t)
       = Inl \<lparr> status = 403, body = Message ''Invalid or expired token'' \<rparr>"
  by (simp add: validateSession_def)

lemma validateSession_expired:
  "jwt_verify t (JWT_SECRET cfg) now = Inl TokenExpiredError \<Longrightarrow>
     validateSession cfg s now (Some t)
       = Inl \<lparr> status = 401, body = Message ''Session expired. Please log in again.'' \<rparr>"
  by (cases t) (auto simp: validateSession_def jwt_verify_def split: if_splits)

lemma validateSession_mismatch:
  "jwt_verify t (JWT_SECRET cfg) now = Inr c \<Longrightarrow> sessionTokenVersions s (claim_id c) = Some v \<Longrightarrow>
   v \<noteq> 0 \<Longrightarrow> sessionVersion c \<noteq> Some v \<Longrightarrow>
     validateSession cfg s now (Some t)
       = Inl \<lparr> status = 403, body = Message ''Session invalidated. Please log in again.'' \<rparr>"
  by (cases t) (auto simp: validateSession_def jwt_verify_def split: if_splits)

lemma authenticateToken_error:
  "t \<noteq> Malformed [] \<Longrightarrow> jwt_verify t (JWT_SECRET cfg) now = Inl e \<Longrightarrow>
     authenticateToken cfg now (Some t)
       = Inl \<lparr> status = 403, body = Message ''Invalid or expired token'' \<rparr>"
  by (simp add: authenticateToken_def)

lemma jwt_verify_expired_not_empty:
  "jwt_verify t secret now = Inl TokenExpiredError \<Longrightarrow> t \<noteq> Malformed []"
  by (auto simp: jwt_verify_def)

lemma authenticateToken_Inr_iff:
  "authenticateToken cfg now bearer = Inr u \<longleftrightarrow>
     bearer = Some (Signed (JWT_SECRET cfg) u) \<and> now div 1000 < exp_at u"
proof (cases bearer)
  case None
  then show ?thesis by (simp add: authenticateToken_def)
next
  case (Some t)
  then show ?thesis
    by (cases t) (auto simp: authenticateToken_def jwt_verify_def)
qed

lemma validateSession_rejections:
  "validateSession cfg s now bearer = Inl r \<Longrightarrow>
     r \<in> set [\<lparr> status = 401, body = Message ''Authentication required'' \<rparr>,
               \<lparr> status = 401, body = Message ''Session expired. Please log in again.'' \<rparr>,
               \<lparr> status = 403, body = Message ''Session invalidated. Please log in again.'' \<rparr>,
               \<lparr> status = 403, body = Message ''Invalid or expired token'' \<rparr>]"
  by (auto simp: validateSession_def split: option.splits if_splits sum.splits jwt_error.splits)

lemma authenticateToken_rejections:
  "authenticateToken cfg now bearer = Inl r \<Longrightarrow>
     r \<in> set [\<lparr> status = 401, body = Message ''Authentication required'' \<rparr>,
               \<lparr> status = 403, body = Message ''Invalid or expired token'' \<rparr>]"
  by (auto simp: authenticateToken_def split: option.splits if_splits sum.splits)

lemma authenticateToken_rejection_status:
  "authenticateToken cfg now bearer = Inl r \<Longrightarrow> status r \<noteq> 200"
  by (auto simp: authenticateToken_def split: option.splits if_splits sum.splits)

lemma login_throttled:
  "loginAttempts s email = Some a \<Longrightarrow> maxAttempts \<le> count a \<Longrightarrow> now \<le> resetTime a \<Longrightarrow>
     login cfg compare s now uuid email password
       = (\<lparr> status = 429, body = TooManyAttempts (remainingTime_minutes (resetTime a) now) \<rparr>, s)"
proof -
  assume a: "loginAttempts s email = Some a" "maxAttempts \<le> count a" "now \<le> resetTime a"
  have "(loginAttempts s)(email \<mapsto> a) = loginAttempts s"
    using a(1) by (simp add: map_upd_triv)
  then show ?thesis
    using a by (simp add: login_def attempt_window_def Let_def)
qed

lemma role_gate_forbidden:
  "authenticateToken cfg now bearer = Inr u \<Longrightarrow> claim_role u \<noteq> ''admin'' \<Longrightarrow>
     get_users cfg s now bearer = \<lparr> status = 403, body = Message ''Admin access required'' \<rparr>
     \<and> put_user_role cfg s now bearer target role
         = (\<lparr> status = 403, body = Message ''Admin access required'' \<rparr>, s)"
  by (simp add: get_users_def put_user_role_def)

text \<open>
  C3, as stated: every one of the first four failure kinds is answered with status 401.
  A token whose signature does not verify is answered with 403 by \<^verbatim>\<open>validateSession\<close>
  (and by \<^verbatim>\<open>authenticateToken\<close>).
\<close>

theorem invalid_token_status_counterexample:
  "jwt_verify forged_token (JWT_SECRET ex_cfg) 1000 = Inl JsonWebTokenError
   \<and> validateSession ex_cfg ex_server 1000 (Some forged_token)
       = Inl \<lparr> status = 403, body = Message ''Invalid or expired token'' \<rparr>
   \<and> authenticateToken ex_cfg 1000 (Some forged_token)
       = Inl \<lparr> status = 403, body = Message ''Invalid or expired token'' \<rparr>"
  by (simp add: forged_token_def ex_cfg_def jwt_verify_def validateSession_def
      authenticateToken_def)

text \<open>
  C3, amended. No token: 401 from both middlewares. Signature or structure failure: 403
  from both. Expired: 401 from \<^verbatim>\<open>validateSession\<close>, 403 from \<^verbatim>\<open>authenticateToken\<close>. Version
  mismatch: 403 from \<^verbatim>\<open>validateSession\<close>. Throttled login: 429 carrying the remaining
  minutes. Role failure: 403. Every rejection of a middleware is one of a few fixed
  status and message pairs, whatever the state and the token.
\<close>

theorem failure_kind_statuses:
  "validateSession cfg s now None
       = Inl \<lparr> status = 401, body = Message ''Authentication required'' \<rparr>
   \<and> authenticateToken cfg now None
       = Inl \<lparr> status = 401, body = Message ''Authentication required'' \<rparr>
   \<and> (t \<noteq> Malformed [] \<and> jwt_verify t (JWT_SECRET cfg) now = Inl JsonWebTokenError \<longrightarrow>
        validateSession cfg s now (Some t)
          = Inl \<lparr> status = 403, body = Message ''Invalid or expired token'' \<rparr>
        \<and> authenticateToken cfg now (Some t)
          = Inl \<lparr> status = 403, body = Message ''Invalid or expired token'' \<rparr>)
   \<and> (jwt_verify t (JWT_SECRET cfg) now = Inl TokenExpiredError \<longrightarrow>
        validateSession cfg s now (Some t)
          = Inl \<lparr> status = 401, body = Message ''Session expired. Please log in again.'' \<rparr>
        \<and> authenticateToken cfg now (Some t)
          = Inl \<lparr> status = 403, body = Message ''Invalid or expired token'' \<rparr>)
   \<and> (jwt_verify t (JWT_SECRET cfg) now = Inr c \<and> sessionTokenVersions s (claim_id c) = Some v
        \<and> v \<noteq> 0 \<and> sessionVersion c \<noteq> Some v \<longrightarrow>
        validateSession cfg s now (Some t)
          = Inl \<lparr> status = 403, body = Message ''Session invalidated. Please log in again.'' \<rparr>)
   \<and> (loginAttempts s email = Some a \<and> maxAttempts \<le> count a \<and> now \<le> resetTime a \<longrightarrow>
        fst (login cfg compare s now uuid email password)
          = \<lparr> status = 429, body = TooManyAttempts (remainingTime_minutes (resetTime a) now) \<rparr>)
   \<and> (authenticateToken cfg now bearer = Inr u \<and> claim_role u \<noteq> ''admin'' \<longrightarrow>
        get_users cfg s now bearer
          = \<lparr> status = 403, body = Message ''Admin access required'' \<rparr>
        \<and> fst (put_user_role cfg s now bearer target role)
          = \<lparr> status = 403, body = Message ''Admin access required'' \<rparr>)
   \<and> (validateSession cfg s now bearer = Inl r \<longrightarrow>
        r \<in> set [\<lparr> status = 401, body = Message ''Authentication required'' \<rparr>,
                  \<lparr> status = 401, body = Message ''Session expired. Please log in again.'' \<rparr>,
                  \<lparr> status = 403, body = Message ''Session invalidated. Please log in again.'' \<rparr>,
                  \<lparr> status = 403, body = Message ''Invalid or expired token'' \<rparr>])
   \<and> (authenticateToken cfg now bearer = Inl r' \<longrightarrow>
        r' \<in> set [\<lparr> status = 401, body = Message ''Authentication required'' \<rparr>,
                   \<lparr> status = 403, body = Message ''Invalid or expired token'' \<rparr>])"
  using validateSession_None [of cfg s now] authenticateToken_None [of cfg now]
    validateSession_invalid [of t cfg now s]
    authenticateToken_error [of t cfg now]
    validateSession_expired [of t cfg now s] jwt_verify_expired_not_empty [of t "JWT_SECRET cfg" now]
    validateSession_mismatch [of t cfg now c s v]
    login_throttled [of s email a now cfg compare uuid password]
    role_gate_forbidden [of cfg now bearer u s target role]
    validateSession_rejections [of cfg s now bearer r]
    authenticateToken_rejections [of cfg now bearer r']
  by (simp del: set_simps)

lemma remainingTime_minutes_eq:
  "remainingTime_minutes reset now = - ((now - reset) div 60000)"
proof -
  have "real_of_int (reset - now) / 1000 / 60 = real_of_int (reset - now) / real_of_int 60000"
    by simp
  then have "remainingTime_minutes reset now = \<lceil>real_of_int (reset - now) / real_of_int 60000\<rceil>"
    by (simp only: remainingTime_minutes_def)
  also have "\<dots> = - (- (reset - now) div 60000)"
    by (rule ceiling_divide_eq_div)
  finally show ?thesis by simp
qed

theorem failure_kind_statuses_witness:
  "validateSession ex_cfg ex_server 1000 (Some forged_token)
       = Inl \<lparr> status = 403, body = Message ''Invalid or expired token'' \<rparr>
   \<and> validateSession ex_cfg ex_server 86400000 (Some (Signed ''k'' (alice_claims 1 ''j1'')))
       = Inl \<lparr> status = 401, body = Message ''Session expired. Please log in again.'' \<rparr>
   \<and> authenticateToken ex_cfg 86400000 (Some (Signed ''k'' (alice_claims 1 ''j1'')))
       = Inl \<lparr> status = 403, body = Message ''Invalid or expired token'' \<rparr>
   \<and> validateSession ex_cfg alice_bumped 1000 (Some (Signed ''k'' (alice_claims 1 ''j1'')))
       = Inl \<lparr> status = 403, body = Message ''Session invalidated. Please log in again.'' \<rparr>
   \<and> fst (login ex_cfg ex_compare throttled_server 1000 ''j2'' ''a@b.co'' ''password1'')
       = \<lparr> status = 429, body = TooManyAttempts 15 \<rparr>
   \<and> get_users ex_cfg ex_server 1000 (Some (Signed ''k'' (alice_claims 1 ''j1'')))
       = \<lparr> status = 403, body = Message ''Admin access required'' \<rparr>"
  using failure_kind_statuses [where cfg = ex_cfg and s = ex_server and now = 1000
      and t = forged_token and bearer = "Some (Signed ''k'' (alice_claims 1 ''j1''))"
      and u = "alice_claims 1 ''j1''"]
    failure_kind_statuses [where cfg = ex_cfg and s = ex_server and now = 86400000
      and t = "Signed ''k'' (alice_claims 1 ''j1'')"]
    failure_kind_statuses [where cfg = ex_cfg and s = alice_bumped and now = 1000
      and t = "Signed ''k'' (alice_claims 1 ''j1'')" and c = "alice_claims 1 ''j1''" and v = 2]
    failure_kind_statuses [where cfg = ex_cfg and s = throttled_server and now = 1000
      and email = "''a@b.co''" and a = "\<lparr> count = 5, resetTime = 900000 \<rparr>"
      and compare = ex_compare and uuid = "''j2''" and password = "''password1''"]
  by (simp add: forged_token_def ex_cfg_def jwt_verify_def alice_claims_def
      alice_registered_eq alice_bumped_def bumpVersion_def currentVersion_def
      throttled_server_def maxAttempts_def remainingTime_minutes_eq
      authenticateToken_def del: set_simps)

section \<open>Logout: properties\<close>

lemma logout_admitted:
  "authenticateToken cfg now (Some t) = Inr u \<Longrightarrow>
     logout cfg s now (Some t)
       = (\<lparr> status = 200, body = Message ''Logged out successfully'' \<rparr>,
          (case activeSessions s (claim_id u) of
             None \<Rightarrow> s
           | Some ts \<Rightarrow> s\<lparr> activeSessions := (activeSessions s)(claim_id u \<mapsto> set_delete t ts) \<rparr>))"
  by (simp add: logout_def)

lemma logout_rejected:
  "authenticateToken cfg now bearer = Inl r \<Longrightarrow> logout cfg s now bearer = (r, s)"
  by (simp add: logout_def)

lemma set_set_delete: "set (set_delete x xs) = set xs - {x}"
  by (auto simp: set_delete_def)

lemma logout_sessions:
  "authenticateToken cfg now (Some t) = Inr u \<Longrightarrow>
     activeSessions (snd (logout cfg s now (Some t)))
       = (\<lambda>q. if q = claim_id u then map_option (set_delete t) (activeSessions s q)
              else activeSessions s q)"
  by (auto simp: logout_admitted split: option.splits)

lemma logout_other_fields:
  "sessionTokenVersions (snd (logout cfg s now bearer)) = sessionTokenVersions s
   \<and> users (snd (logout cfg s now bearer)) = users s
   \<and> loginAttempts (snd (logout cfg s now bearer)) = loginAttempts s"
  by (simp add: logout_def split: sum.splits option.splits)

lemma validateSession_cong_versions:
  "sessionTokenVersions s' = sessionTokenVersions s \<Longrightarrow>
     validateSession cfg s' now bearer = validateSession cfg s now bearer"
  unfolding validateSession_def by (simp cong: option.case_cong sum.case_cong if_cong)

text \<open>
  C7, as stated: logout answers 200 for every presented token. A token whose signature
  does not verify is stopped by \<^verbatim>\<open>authenticateToken\<close> with 403, and so is an expired one.
\<close>

theorem logout_not_always_200_counterexample:
  "fst (logout ex_cfg three_sessions 1000 (Some forged_token))
     = \<lparr> status = 403, body = Message ''Invalid or expired token'' \<rparr>
   \<and> logout ex_cfg three_sessions 86400000 (Some (Signed ''k'' (alice_claims 1 ''j2'')))
     = (\<lparr> status = 403, body = Message ''Invalid or expired token'' \<rparr>, three_sessions)"
  by (simp add: logout_def authenticateToken_def jwt_verify_def forged_token_def ex_cfg_def
      alice_claims_def)

text \<open>
  C7, amended: logout answers 200 and revokes the presented token exactly when the token
  passes \<^verbatim>\<open>authenticateToken\<close>, that is, when its signature verifies under the server
  secret and it is not expired. A request without a token is answered 401, a request
  whose token fails verification is answered 403, and in both cases the state is
  unchanged.
\<close>

theorem logout_status:
  "(authenticateToken cfg now (Some t) = Inr u \<longrightarrow>
      fst (logout cfg s now (Some t))
        = \<lparr> status = 200, body = Message ''Logged out successfully'' \<rparr>
      \<and> activeSessions (snd (logout cfg s now (Some t))) (claim_id u)
          = map_option (set_delete t) (activeSessions s (claim_id u))
      \<and> \<not> isLive (snd (logout cfg s now (Some t))) (claim_id u) t)
   \<and> (authenticateToken cfg now (Some t) = Inr u \<longleftrightarrow>
        t = Signed (JWT_SECRET cfg) u \<and> now div 1000 < exp_at u)
   \<and> logout cfg s now None
       = (\<lparr> status = 401, body = Message ''Authentication required'' \<rparr>, s)
   \<and> logout cfg s now (Some (Malformed []))
       = (\<lparr> status = 401, body = Message ''Authentication required'' \<rparr>, s)
   \<and> (t' \<noteq> Malformed [] \<and> jwt_verify t' (JWT_SECRET cfg) now = Inl e \<longrightarrow>
        logout cfg s now (Some t')
          = (\<lparr> status = 403, body = Message ''Invalid or expired token'' \<rparr>, s))
   \<and> (status (fst (logout cfg s now bearer)) = 200 \<longleftrightarrow>
        (\<exists>v. authenticateToken cfg now bearer = Inr v))"
proof -
  have revoked: "activeSessions (snd (logout cfg s now (Some t))) (claim_id u)
        = map_option (set_delete t) (activeSessions s (claim_id u))
      \<and> \<not> isLive (snd (logout cfg s now (Some t))) (claim_id u) t"
    if "authenticateToken cfg now (Some t) = Inr u"
    using logout_sessions [OF that, of s]
    by (simp add: isLive_def set_set_delete split: option.splits)
  have none: "logout cfg s now None
      = (\<lparr> status = 401, body = Message ''Authentication required'' \<rparr>, s)"
    by (simp add: logout_rejected authenticateToken_None)
  have empty: "logout cfg s now (Some (Malformed []))
      = (\<lparr> status = 401, body = Message ''Authentication required'' \<rparr>, s)"
    by (simp add: logout_def authenticateToken_def)
  have failed: "logout cfg s now (Some t')
      = (\<lparr> status = 403, body = Message ''Invalid or expired token'' \<rparr>, s)"
    if "t' \<noteq> Malformed []" "jwt_verify t' (JWT_SECRET cfg) now = Inl e"
    using authenticateToken_error [OF that] by (simp add: logout_rejected)
  have ok: "status (fst (logout cfg s now bearer)) = 200 \<longleftrightarrow>
      (\<exists>v. authenticateToken cfg now bearer = Inr v)"
    by (cases "authenticateToken cfg now bearer")
      (auto simp: logout_def dest: authenticateToken_rejection_status)
  have admitted: "authenticateToken cfg now (Some t) = Inr u \<longrightarrow>
      fst (logout cfg s now (Some t))
        = \<lparr> status = 200, body = Message ''Logged out successfully'' \<rparr>
      \<and> activeSessions (snd (logout cfg s now (Some t))) (claim_id u)
          = map_option (set_delete t) (activeSessions s (claim_id u))
      \<and> \<not> isLive (snd (logout cfg s now (Some t))) (claim_id u) t"
    using revoked by (simp add: logout_admitted)
  have passes: "authenticateToken cfg now (Some t) = Inr u \<longleftrightarrow>
      t = Signed (JWT_SECRET cfg) u \<and> now div 1000 < exp_at u"
    by (rule authenticateToken_Inr_iff [of cfg now "Some t" u, simplified])
  have rejected: "t' \<noteq> Malformed [] \<and> jwt_verify t' (JWT_SECRET cfg) now = Inl e \<longrightarrow>
      logout cfg s now (Some t')
        = (\<lparr> status = 403, body = Message ''Invalid or expired token'' \<rparr>, s)"
    using failed by simp
  from admitted passes none empty rejected ok show ?thesis
    by - (intro conjI; assumption)
qed

theorem logout_status_witness:
  "fst (logout ex_cfg three_sessions 1000 (Some (Signed ''k'' (alice_claims 1 ''j2''))))
     = \<lparr> status = 200, body = Message ''Logged out successfully'' \<rparr>
   \<and> \<not> isLive (snd (logout ex_cfg three_sessions 1000 (Some (Signed ''k'' (alice_claims 1 ''j2'')))))
         ''u1'' (Signed ''k'' (alice_claims 1 ''j2''))
   \<and> logout ex_cfg three_sessions 1000 None
     = (\<lparr> status = 401, body = Message ''Authentication required'' \<rparr>, three_sessions)
   \<and> logout ex_cfg three_sessions 1000 (Some forged_token)
     = (\<lparr> status = 403, body = Message ''Invalid or expired token'' \<rparr>, three_sessions)"
  using logout_status [where cfg = ex_cfg and now = 1000 and s = three_sessions
      and t = "Signed ''k'' (alice_claims 1 ''j2'')" and u = "alice_claims 1 ''j2''"
      and t' = forged_token and e = JsonWebTokenError and bearer = None]
  by (simp add: authenticateToken_def jwt_verify_def ex_cfg_def alice_claims_def
      forged_token_def)

text \<open>
  C6. A logout with a valid token removes that token from the entry of the token's
  principal and nothing else: the version store is unchanged, every other token of the
  principal is live exactly if it was, the entry keeps its order, no other principal's
  entry changes, and \<^verbatim>\<open>validateSession\<close> decides every request as before.
\<close>

theorem logout_revokes_only_presented_token:
  assumes "authenticateToken cfg now (Some t) = Inr u"
  shows "sessionTokenVersions (snd (logout cfg s now (Some t))) = sessionTokenVersions s
    \<and> activeSessions (snd (logout cfg s now (Some t))) (claim_id u)
        = map_option (set_delete t) (activeSessions s (claim_id u))
    \<and> \<not> isLive (snd (logout cfg s now (Some t))) (claim_id u) t
    \<and> (\<forall>t'. t' \<noteq> t \<longrightarrow>
          isLive (snd (logout cfg s now (Some t))) (claim_id u) t' = isLive s (claim_id u) t')
    \<and> (\<forall>q. q \<noteq> claim_id u \<longrightarrow>
          activeSessions (snd (logout cfg s now (Some t))) q = activeSessions s q)
    \<and> (\<forall>now' b. validateSession cfg (snd (logout cfg s now (Some t))) now' b
                   = validateSession cfg s now' b)"
proof -
  let ?s' = "snd (logout cfg s now (Some t))"
  have sess: "activeSessions ?s'
      = (\<lambda>q. if q = claim_id u then map_option (set_delete t) (activeSessions s q)
             else activeSessions s q)"
    by (rule logout_sessions [OF assms])
  have vers: "sessionTokenVersions ?s' = sessionTokenVersions s"
    by (simp add: logout_other_fields)
  have "\<not> isLive ?s' (claim_id u) t"
    by (simp add: isLive_def sess set_set_delete split: option.splits)
  moreover have "isLive ?s' (claim_id u) t' = isLive s (claim_id u) t'" if "t' \<noteq> t" for t'
    using that by (auto simp: isLive_def sess set_set_delete split: option.splits)
  moreover have "validateSession cfg ?s' now' b = validateSession cfg s now' b" for now' b
    by (rule validateSession_cong_versions [OF vers])
  ultimately show ?thesis
    using vers by (simp add: sess)
qed

theorem logout_revokes_only_presented_token_witness:
  "activeSessions (snd (logout ex_cfg three_sessions 1000 (Some (Signed ''k'' (alice_claims 1 ''j2'')))))
       ''u1''
     = Some [Signed ''k'' (alice_claims 1 ''j1''), Signed ''k'' (alice_claims 1 ''j3'')]
   \<and> isLive (snd (logout ex_cfg three_sessions 1000 (Some (Signed ''k'' (alice_claims 1 ''j2'')))))
       ''u1'' (Signed ''k'' (alice_claims 1 ''j3''))
   \<and> activeSessions (snd (logout ex_cfg three_sessions 1000 (Some (Signed ''k'' (alice_claims 1 ''j2'')))))
       ''u0''
     = Some [Signed ''k'' root_claims]
   \<and> sessionTokenVersions
       (snd (logout ex_cfg three_sessions 1000 (Some (Signed ''k'' (alice_claims 1 ''j2'')))))
     = sessionTokenVersions three_sessions"
proof -
  have ok: "authenticateToken ex_cfg 1000 (Some (Signed ''k'' (alice_claims 1 ''j2'')))
      = Inr (alice_claims 1 ''j2'')"
    by (simp add: authenticateToken_def jwt_verify_def ex_cfg_def alice_claims_def)
  have j: "alice_claims 1 ''j3'' \<noteq> alice_claims 1 ''j2''"
    "alice_claims 1 ''j1'' \<noteq> alice_claims 1 ''j2''"
    "claim_id (alice_claims 1 ''j2'') = ''u1''"
    by (simp_all add: alice_claims_def)
  show ?thesis
    using logout_revokes_only_presented_token [OF ok, of three_sessions] j
    by (simp add: three_sessions_def ex_server_def isLive_def set_delete_def)
qed

section \<open>Role gate: properties\<close>

lemma get_users_status:
  "status (get_users cfg s now bearer)
     = (case authenticateToken cfg now bearer of
          Inl r \<Rightarrow> status r
        | Inr u \<Rightarrow> if claim_role u \<noteq> ''admin'' then 403 else 200)"
  by (simp add: get_users_def split: sum.splits)

lemma put_user_role_status:
  "status (fst (put_user_role cfg s now bearer target role))
     = (case authenticateToken cfg now bearer of
          Inl r \<Rightarrow> status r
        | Inr u \<Rightarrow> if claim_role u \<noteq> ''admin'' then 403
                   else if role \<notin> set [''admin'', ''officer'', ''applicant''] then 400 else 200)"
  by (simp add: put_user_role_def split: sum.splits)

lemmas gate_defs =
  behind_authenticateToken_def post_document_gate_def get_documents_gate_def
  delete_document_gate_def put_application_status_gate_def get_reports_gate_def
  get_audit_logs_gate_def get_applications_scope_def dashboard_stats_scope_def
  get_application_gate_def put_application_gate_def delete_application_gate_def
  export_applications_gate_def get_reviews_gate_def get_review_gate_def post_review_gate_def
  put_review_gate_def delete_review_gate_def

lemma delete_user_status:
  "status (fst (delete_user cfg s now bearer target))
     = (case authenticateToken cfg now bearer of
          Inl r \<Rightarrow> status r
        | Inr u \<Rightarrow> if claim_role u \<noteq> ''admin'' then 403
                   else if target = claim_id u then 400 else 200)"
  by (simp add: delete_user_def split: sum.splits)

text \<open>
  C9, as stated: on every protected route the role-gated authorization is decided by the
  role claim of the token alone. \<^verbatim>\<open>GET /api/applications/:id\<close> admits Alice's applicant
  token when application \<^verbatim>\<open>a1\<close> is hers and answers 403 to the same token when the
  application's row names another owner: the row and the token's id decide as well.
\<close>

theorem ownership_decides_counterexample:
  "claim_role (alice_claims 1 ''j1'') = ''applicant''
   \<and> get_application_gate ex_cfg ex_server own_tables 1000 (Some (alice_token ''j1'')) ''a1''
       = None
   \<and> get_application_gate ex_cfg ex_server foreign_tables 1000 (Some (alice_token ''j1'')) ''a1''
       = Some \<lparr> status = 403, body = Message ''Access denied'' \<rparr>"
  by (simp add: get_application_gate_def behind_authenticateToken_def authenticateToken_def
      jwt_verify_def application_with_program_def own_tables_def foreign_tables_def
      alice_token_def alice_claims_def ex_cfg_def)

text \<open>
  C9, amended. Every handler that tests the role reads it, and the id where it tests
  ownership, from the claims of the presented token, together with rows of the
  applications, documents and reviews tables; none reads the \<^verbatim>\<open>users\<close> table. So in any two
  server states, in particular before and after a role update in the \<^verbatim>\<open>users\<close> table, each
  of them gives a request the same outcome; the handlers without an ownership test give
  the same outcome whatever all the tables hold; and \<^verbatim>\<open>GET /api/users\<close> answers 200
  exactly for an unexpired token of the server whose embedded role is admin.
\<close>

theorem role_update_keeps_authorization:
  "status (get_users cfg s1 now bearer) = status (get_users cfg s2 now bearer)
   \<and> status (fst (put_user_role cfg s1 now bearer target role))
       = status (fst (put_user_role cfg s2 now bearer target role))
   \<and> status (fst (delete_user cfg s1 now bearer target))
       = status (fst (delete_user cfg s2 now bearer target))
   \<and> post_document_gate cfg s1 tb now bearer i documentType fileName
       = post_document_gate cfg s2 tb now bearer i documentType fileName
   \<and> get_documents_gate cfg s1 tb now bearer i = get_documents_gate cfg s2 tb now bearer i
   \<and> delete_document_gate cfg s1 tb now bearer i = delete_document_gate cfg s2 tb now bearer i
   \<and> put_application_status_gate cfg s1 tb now bearer i new_status
       = put_application_status_gate cfg s2 tb now bearer i new_status
   \<and> get_application_gate cfg s1 tb now bearer i = get_application_gate cfg s2 tb now bearer i
   \<and> put_application_gate cfg s1 tb now bearer i = put_application_gate cfg s2 tb now bearer i
   \<and> delete_application_gate cfg s1 tb now bearer i
       = delete_application_gate cfg s2 tb now bearer i
   \<and> put_review_gate cfg s1 tb now bearer i = put_review_gate cfg s2 tb now bearer i
   \<and> delete_review_gate cfg s1 tb now bearer i = delete_review_gate cfg s2 tb now bearer i
   \<and> get_reports_gate cfg s1 tb1 now bearer = get_reports_gate cfg s2 tb2 now bearer
   \<and> get_audit_logs_gate cfg s1 tb1 now bearer = get_audit_logs_gate cfg s2 tb2 now bearer
   \<and> get_applications_scope cfg s1 tb1 now bearer = get_applications_scope cfg s2 tb2 now bearer
   \<and> dashboard_stats_scope cfg s1 tb1 now bearer = dashboard_stats_scope cfg s2 tb2 now bearer
   \<and> export_applications_gate cfg s1 tb1 now bearer
       = export_applications_gate cfg s2 tb2 now bearer
   \<and> get_reviews_gate cfg s1 tb1 now bearer = get_reviews_gate cfg s2 tb2 now bearer
   \<and> get_review_gate cfg s1 tb1 now bearer i = get_review_gate cfg s2 tb2 now bearer i
   \<and> post_review_gate cfg s1 tb1 now bearer = post_review_gate cfg s2 tb2 now bearer
   \<and> status (get_users cfg (snd (put_user_role cfg s now0 admin target0 role0)) now bearer)
       = status (get_users cfg s now bearer)
   \<and> (status (get_users cfg s now bearer) = 200 \<longleftrightarrow>
        (\<exists>u. authenticateToken cfg now bearer = Inr u \<and> claim_role u = ''admin''))"
proof -
  have "status (get_users cfg s now bearer) = 200 \<longleftrightarrow>
      (\<exists>u. authenticateToken cfg now bearer = Inr u \<and> claim_role u = ''admin'')"
    by (auto simp: get_users_status split: sum.splits dest: authenticateToken_rejection_status)
  then show ?thesis
    by (simp add: get_users_status put_user_role_status delete_user_status gate_defs)
qed

theorem role_update_keeps_authorization_witness:
  "users (snd alice_promoted) = [root_row, alice_row\<lparr> row_role := ''admin'' \<rparr>]
   \<and> status (get_users ex_cfg (snd alice_promoted) 2000 (Some (alice_token ''j1''))) = 403
   \<and> status (get_users ex_cfg ex_server 2000 (Some (alice_token ''j1''))) = 403
   \<and> get_reports_gate ex_cfg (snd alice_promoted) own_tables 2000 (Some (alice_token ''j1''))
       = Some \<lparr> status = 403, body = Message ''Access access required'' \<rparr>
   \<and> get_application_gate ex_cfg (snd alice_promoted) own_tables 2000 (Some (alice_token ''j1''))
        ''a1'' = None"
proof -
  have before: "get_reports_gate ex_cfg ex_server own_tables 2000 (Some (alice_token ''j1''))
        = Some \<lparr> status = 403, body = Message ''Access access required'' \<rparr>"
    "get_application_gate ex_cfg ex_server own_tables 2000 (Some (alice_token ''j1'')) ''a1''
        = None"
    "status (get_users ex_cfg ex_server 2000 (Some (alice_token ''j1''))) = 403"
    by (simp_all add: get_reports_gate_def get_application_gate_def get_users_def
        behind_authenticateToken_def authenticateToken_def jwt_verify_def
        application_with_program_def own_tables_def alice_token_def alice_claims_def ex_cfg_def)
  have promoted: "users (snd alice_promoted) = [root_row, alice_row\<lparr> row_role := ''admin'' \<rparr>]"
    by (simp add: alice_promoted_def put_user_role_def authenticateToken_def jwt_verify_def
        ex_cfg_def root_claims_def ex_server_def root_row_def alice_row_def)
  show ?thesis
    using role_update_keeps_authorization [where cfg = ex_cfg and ?s1.0 = "snd alice_promoted"
        and ?s2.0 = ex_server and now = 2000 and bearer = "Some (alice_token ''j1'')"
        and tb = own_tables and ?tb1.0 = own_tables and ?tb2.0 = own_tables and i = "''a1''"]
      before promoted
    by (simp only: simp_thms)
qed

section \<open>Login throttle: properties\<close>














section \<open>Session registry: properties\<close>

lemma set_delete_head: "x \<notin> set xs \<Longrightarrow> set_delete x (x # xs) = xs"
  by (auto simp: set_delete_def filter_id_conv)

lemma track_session_append:
  "distinct (ts @ [t]) \<Longrightarrow> int (length ts) < m \<Longrightarrow> track_session m t (Some ts) = ts @ [t]"
  by (simp add: track_session_def set_add_def)

lemma track_session_evict:
  assumes "distinct (ts @ [t])" and "m \<le> int (length ts)"
  shows "track_session m t (Some ts) = tl (ts @ [t])"
proof (cases ts)
  case Nil
  with assms show ?thesis
    by (simp add: track_session_def set_add_def set_delete_def)
next
  case (Cons x xs)
  with assms have "set_delete x (x # xs @ [t]) = xs @ [t]"
    by (intro set_delete_head) auto
  with assms Cons show ?thesis
    by (auto simp: track_session_def set_add_def Let_def)
qed

lemma track_session_None:
  "track_session m t None = (if 1 > m then [] else [t])"
  by (simp add: track_session_def set_add_def set_delete_def)

lemma track_session_last:
  assumes "distinct (ts @ [t])" and "length ts \<le> m" and "1 \<le> m"
  shows "track_session (int m) t (Some ts) = drop (Suc (length ts) - m) (ts @ [t])"
proof (cases "length ts < m")
  case True
  with assms show ?thesis by (simp add: track_session_append)
next
  case False
  with assms have "length ts = m" by simp
  with assms show ?thesis by (cases ts) (simp_all add: track_session_evict)
qed

lemma login_succeeded:
  assumes "login cfg compare s now uuid email password = (r, s')" and "status r = 200"
  shows "\<exists>row. queryOne_email (users s) email = Some row
           \<and> r = \<lparr> status = 200,
                   body = SessionBody ''Login successful'' (row_user row)
                            (generateToken cfg s now uuid (row_user row)) \<rparr>
           \<and> activeSessions s'
               = (activeSessions s)(row_id row \<mapsto>
                    track_session (MAX_CONCURRENT_SESSIONS cfg)
                      (generateToken cfg s now uuid (row_user row))
                      (activeSessions s (row_id row)))"
    and "users s' = users s"
    and "sessionTokenVersions s' = sessionTokenVersions s"
  using assms
  by (auto simp: login_def Let_def generateToken_def split: if_splits option.splits)

lemma login_registers:
  assumes "login cfg compare s now uuid email password = (r, s')" and "status r = 200"
    and "queryOne_email (users s) email = Some row" and "body r = SessionBody m u t"
  shows "activeSessions s' (row_id row)
           = Some (track_session (MAX_CONCURRENT_SESSIONS cfg) t (activeSessions s (row_id row)))"
  using login_succeeded(1) [OF assms(1,2)] assms(3,4) by auto

lemma track_session_entry:
  "track_session m t e = track_session m t (Some (case e of None \<Rightarrow> [] | Some ts \<Rightarrow> ts))"
  by (simp add: track_session_def)

lemma track_session_window:
  assumes "distinct (A @ [t])" and "1 \<le> m"
  shows "track_session (int m) t (Some (drop (length A - m) A))
           = drop (Suc (length A) - m) (A @ [t])"
proof -
  let ?R = "drop (length A - m) A"
  have "set ?R \<subseteq> set A" by (rule set_drop_subset)
  with assms(1) have d: "distinct (?R @ [t])" by auto
  have l: "length ?R \<le> m" by simp
  have "track_session (int m) t (Some ?R) = drop (Suc (length ?R) - m) (?R @ [t])"
    by (rule track_session_last [OF d l assms(2)])
  also have "\<dots> = drop (Suc (length A) - m) (A @ [t])"
  proof (cases "length A < m")
    case True
    then show ?thesis by simp
  next
    case False
    then have "Suc (length A) - m = Suc (length A - m)" by simp
    with False show ?thesis by (simp add: drop_Suc tl_drop)
  qed
  finally show ?thesis .
qed

text \<open>
  C4. With the maximum at 5, six successful logins of one principal, whose entry held at
  most 5 tokens before and whose tokens are pairwise different (each carries a fresh
  \<^verbatim>\<open>jwtid\<close>), leave exactly the tokens of logins 2 to 6 in the entry, in that order: token 1
  is no longer live. In general the login handler appends the token and, when the entry
  is then over the maximum, removes its first, oldest element only.
\<close>

theorem six_logins_keep_last_five:
  assumes max: "MAX_CONCURRENT_SESSIONS cfg = 5"
    and l1: "login cfg compare s0 n1 j1 email p1 = (r1, s1)" "status r1 = 200"
    and l2: "login cfg compare s1 n2 j2 email p2 = (r2, s2)" "status r2 = 200"
    and l3: "login cfg compare s2 n3 j3 email p3 = (r3, s3)" "status r3 = 200"
    and l4: "login cfg compare s3 n4 j4 email p4 = (r4, s4)" "status r4 = 200"
    and l5: "login cfg compare s4 n5 j5 email p5 = (r5, s5)" "status r5 = 200"
    and l6: "login cfg compare s5 n6 j6 email p6 = (r6, s6)" "status r6 = 200"
    and principal: "queryOne_email (users s0) email = Some row"
    and issued: "body r1 = SessionBody m1 u1 tok1" "body r2 = SessionBody m2 u2 tok2"
      "body r3 = SessionBody m3 u3 tok3" "body r4 = SessionBody m4 u4 tok4"
      "body r5 = SessionBody m5 u5 tok5" "body r6 = SessionBody m6 u6 tok6"
    and before: "ts0 = (case activeSessions s0 (row_id row) of None \<Rightarrow> [] | Some ts \<Rightarrow> ts)"
      "length ts0 \<le> 5"
    and fresh: "distinct (ts0 @ [tok1, tok2, tok3, tok4, tok5, tok6])"
  shows "activeSessions s6 (row_id row) = Some [tok2, tok3, tok4, tok5, tok6]
    \<and> \<not> isLive s6 (row_id row) tok1
    \<and> isLive s6 (row_id row) tok2 \<and> isLive s6 (row_id row) tok3 \<and> isLive s6 (row_id row) tok4
    \<and> isLive s6 (row_id row) tok5 \<and> isLive s6 (row_id row) tok6
    \<and> (\<forall>m t ts. distinct (ts @ [t]) \<and> int (length ts) < m \<longrightarrow>
          track_session m t (Some ts) = ts @ [t])
    \<and> (\<forall>m t ts. distinct (ts @ [t]) \<and> m \<le> int (length ts) \<longrightarrow>
          track_session m t (Some ts) = tl (ts @ [t]))"
proof -
  let ?p = "row_id row"
  have u: "queryOne_email (users s1) email = Some row" "queryOne_email (users s2) email = Some row"
    "queryOne_email (users s3) email = Some row" "queryOne_email (users s4) email = Some row"
    "queryOne_email (users s5) email = Some row"
    using principal login_succeeded(2) [OF l1] login_succeeded(2) [OF l2]
      login_succeeded(2) [OF l3] login_succeeded(2) [OF l4] login_succeeded(2) [OF l5]
    by simp_all
  have d: "distinct (ts0 @ [tok1])" "distinct ((ts0 @ [tok1]) @ [tok2])"
    "distinct ((ts0 @ [tok1, tok2]) @ [tok3])" "distinct ((ts0 @ [tok1, tok2, tok3]) @ [tok4])"
    "distinct ((ts0 @ [tok1, tok2, tok3, tok4]) @ [tok5])"
    "distinct ((ts0 @ [tok1, tok2, tok3, tok4, tok5]) @ [tok6])"
    using fresh by auto
  have w: "track_session 5 t (Some (drop (length A - 5) A)) = drop (Suc (length A) - 5) (A @ [t])"
    if "distinct (A @ [t])" for A t
    using track_session_window [OF that, of 5] by simp
  have "activeSessions s1 ?p = Some (track_session 5 tok1 (Some ts0))"
    using login_registers [OF l1 principal issued(1)] max before(1)
      track_session_entry [of 5 tok1 "activeSessions s0 ?p"] by simp
  then have e1: "activeSessions s1 ?p = Some (drop (length (ts0 @ [tok1]) - 5) (ts0 @ [tok1]))"
    using w [OF d(1)] before(2) by simp
  have e2: "activeSessions s2 ?p
      = Some (drop (length (ts0 @ [tok1, tok2]) - 5) (ts0 @ [tok1, tok2]))"
    using login_registers [OF l2 u(1) issued(2)] max e1 w [OF d(2)] by simp
  have e3: "activeSessions s3 ?p
      = Some (drop (length (ts0 @ [tok1, tok2, tok3]) - 5) (ts0 @ [tok1, tok2, tok3]))"
    using login_registers [OF l3 u(2) issued(3)] max e2 w [OF d(3)] by simp
  have e4: "activeSessions s4 ?p
      = Some (drop (length (ts0 @ [tok1, tok2, tok3, tok4]) - 5) (ts0 @ [tok1, tok2, tok3, tok4]))"
    using login_registers [OF l4 u(3) issued(4)] max e3 w [OF d(4)] by simp
  have e5: "activeSessions s5 ?p
      = Some (drop (length (ts0 @ [tok1, tok2, tok3, tok4, tok5]) - 5)
                (ts0 @ [tok1, tok2, tok3, tok4, tok5]))"
    using login_registers [OF l5 u(4) issued(5)] max e4 w [OF d(5)] by simp
  have "activeSessions s6 ?p
      = Some (drop (Suc (length (ts0 @ [tok1, tok2, tok3, tok4, tok5])) - 5)
                ((ts0 @ [tok1, tok2, tok3, tok4, tok5]) @ [tok6]))"
    using login_registers [OF l6 u(5) issued(6)] max e5 w [OF d(6)] by simp
  then have e6: "activeSessions s6 ?p = Some [tok2, tok3, tok4, tok5, tok6]"
    by simp
  have "\<not> isLive s6 ?p tok1"
    using fresh by (auto simp: isLive_def e6)
  then show ?thesis
    by (simp add: e6 isLive_def track_session_append track_session_evict)
qed

lemma login1_eq:
  "login1 = (\<lparr> status = 200, body = SessionBody ''Login successful'' alice (alice_token ''j1'') \<rparr>,
             sessions_server [alice_token ''j1''])"
  by (simp add: login1_def login_def attempt_window_def windowMs_def maxAttempts_def
      queryOne_email_def ex_server_def root_row_def alice_row_def ex_compare_def ex_hash_def
      generateToken_def row_user_def alice_def alice_token_def alice_claims_def ex_cfg_def
      track_session_def set_add_def sessions_server_def Let_def)

lemma successful_login_step:
  "now div 1000 = 0 \<Longrightarrow> now \<le> 900000 \<Longrightarrow>
     login ex_cfg ex_compare (sessions_server ts) now uuid ''a@b.co'' ''password1''
       = (\<lparr> status = 200, body = SessionBody ''Login successful'' alice (alice_token uuid) \<rparr>,
          sessions_server (track_session 5 (alice_token uuid) (Some ts)))"
  by (simp add: login_def attempt_window_def maxAttempts_def
      queryOne_email_def ex_server_def root_row_def alice_row_def ex_compare_def ex_hash_def
      generateToken_def row_user_def alice_def alice_token_def alice_claims_def ex_cfg_def
      sessions_server_def Let_def)

lemma alice_token_eq: "alice_token i = alice_token j \<longleftrightarrow> i = j"
  by (simp add: alice_token_def alice_claims_def)

lemma logins_eq:
  "login2 = (\<lparr> status = 200, body = SessionBody ''Login successful'' alice (alice_token ''j2'') \<rparr>,
             sessions_server [alice_token ''j1'', alice_token ''j2''])"
  "login3 = (\<lparr> status = 200, body = SessionBody ''Login successful'' alice (alice_token ''j3'') \<rparr>,
             sessions_server [alice_token ''j1'', alice_token ''j2'', alice_token ''j3''])"
  "login4 = (\<lparr> status = 200, body = SessionBody ''Login successful'' alice (alice_token ''j4'') \<rparr>,
             sessions_server [alice_token ''j1'', alice_token ''j2'', alice_token ''j3'',
                              alice_token ''j4''])"
  "login5 = (\<lparr> status = 200, body = SessionBody ''Login successful'' alice (alice_token ''j5'') \<rparr>,
             sessions_server [alice_token ''j1'', alice_token ''j2'', alice_token ''j3'',
                              alice_token ''j4'', alice_token ''j5''])"
  "login6 = (\<lparr> status = 200, body = SessionBody ''Login successful'' alice (alice_token ''j6'') \<rparr>,
             sessions_server [alice_token ''j2'', alice_token ''j3'', alice_token ''j4'',
                              alice_token ''j5'', alice_token ''j6''])"
  by (simp_all add: login6_def login5_def login4_def login3_def login2_def login1_eq
      successful_login_step track_session_def set_add_def set_delete_def alice_token_eq)

theorem six_logins_keep_last_five_witness:
  "activeSessions (snd login6) ''u1''
     = Some [alice_token ''j2'', alice_token ''j3'', alice_token ''j4'', alice_token ''j5'',
             alice_token ''j6'']
   \<and> \<not> isLive (snd login6) ''u1'' (alice_token ''j1'')
   \<and> isLive (snd login5) ''u1'' (alice_token ''j1'')"
proof -
  have max: "MAX_CONCURRENT_SESSIONS ex_cfg = 5"
    by (simp add: ex_cfg_def)
  have l1: "login ex_cfg ex_compare ex_server 0 ''j1'' ''a@b.co'' ''password1''
      = (fst login1, snd login1)"
    by (simp add: login1_def)
  have l2: "login ex_cfg ex_compare (snd login1) 1 ''j2'' ''a@b.co'' ''password1''
      = (fst login2, snd login2)"
    by (simp add: login2_def)
  have l3: "login ex_cfg ex_compare (snd login2) 2 ''j3'' ''a@b.co'' ''password1''
      = (fst login3, snd login3)"
    by (simp add: login3_def)
  have l4: "login ex_cfg ex_compare (snd login3) 3 ''j4'' ''a@b.co'' ''password1''
      = (fst login4, snd login4)"
    by (simp add: login4_def)
  have l5: "login ex_cfg ex_compare (snd login4) 4 ''j5'' ''a@b.co'' ''password1''
      = (fst login5, snd login5)"
    by (simp add: login5_def)
  have l6: "login ex_cfg ex_compare (snd login5) 5 ''j6'' ''a@b.co'' ''password1''
      = (fst login6, snd login6)"
    by (simp add: login6_def)
  have st: "status (fst login1) = 200" "status (fst login2) = 200" "status (fst login3) = 200"
    "status (fst login4) = 200" "status (fst login5) = 200" "status (fst login6) = 200"
    by (simp_all add: login1_eq logins_eq)
  have principal: "queryOne_email (users ex_server) ''a@b.co'' = Some alice_row"
    by (simp add: queryOne_email_def ex_server_def root_row_def alice_row_def)
  have issued:
    "body (fst login1) = SessionBody ''Login successful'' alice (alice_token ''j1'')"
    "body (fst login2) = SessionBody ''Login successful'' alice (alice_token ''j2'')"
    "body (fst login3) = SessionBody ''Login successful'' alice (alice_token ''j3'')"
    "body (fst login4) = SessionBody ''Login successful'' alice (alice_token ''j4'')"
    "body (fst login5) = SessionBody ''Login successful'' alice (alice_token ''j5'')"
    "body (fst login6) = SessionBody ''Login successful'' alice (alice_token ''j6'')"
    by (simp_all add: login1_eq logins_eq)
  have before: "[] = (case activeSessions ex_server (row_id alice_row) of
      None \<Rightarrow> [] | Some ts \<Rightarrow> ts)" "length ([] :: token list) \<le> 5"
    by (simp_all add: ex_server_def)
  have fresh: "distinct ([] @ [alice_token ''j1'', alice_token ''j2'', alice_token ''j3'',
      alice_token ''j4'', alice_token ''j5'', alice_token ''j6''])"
    by (simp add: alice_token_eq)
  have id: "row_id alice_row = ''u1''"
    by (simp add: alice_row_def)
  have "isLive (snd login5) ''u1'' (alice_token ''j1'')"
    by (simp add: logins_eq sessions_server_def isLive_def)
  then show ?thesis
    using six_logins_keep_last_five [OF max l1 st(1) l2 st(2) l3 st(3) l4 st(4) l5 st(5)
        l6 st(6) principal issued before fresh]
    by (simp add: id)
qed

section \<open>Registration and the sweep: properties\<close>




lemma sweep_entry_within: "int (length ts) \<le> m \<Longrightarrow> sweep_entry m ts = ts"
  by (simp add: sweep_entry_def)







section \<open>Client idle tracker: properties\<close>









end
